theory Spec2Isabelle
  imports Complex_Main "HOL-Library.Sublist"
begin

section \<open>The employee model (employee.py)\<close>

subsection \<open>Enumerations and exceptions\<close>

text \<open>
  \<^verbatim>\<open>class Role(Enum)\<close> and \<^verbatim>\<open>class Department(Enum)\<close>. The members carry the
  integer values 1..3 and 1..5; \<open>Role_value\<close> is \<^verbatim>\<open>.value\<close>, \<open>Role_name\<close> is
  \<^verbatim>\<open>.name\<close>, and \<open>Role_members\<close> is the iteration order of \<^verbatim>\<open>for s in Role\<close>.
\<close>

datatype Role = CEO | CFO | COO

datatype Department = ACCOUNTING | FINANCE | HR | R_AND_D | MACHINING

fun Role_value :: "Role \<Rightarrow> int" where
  "Role_value CEO = 1"
| "Role_value CFO = 2"
| "Role_value COO = 3"

fun Department_value :: "Department \<Rightarrow> int" where
  "Department_value ACCOUNTING = 1"
| "Department_value FINANCE = 2"
| "Department_value HR = 3"
| "Department_value R_AND_D = 4"
| "Department_value MACHINING = 5"

fun Role_name :: "Role \<Rightarrow> string" where
  "Role_name CEO = ''CEO''"
| "Role_name CFO = ''CFO''"
| "Role_name COO = ''COO''"

fun Department_name :: "Department \<Rightarrow> string" where
  "Department_name ACCOUNTING = ''ACCOUNTING''"
| "Department_name FINANCE = ''FINANCE''"
| "Department_name HR = ''HR''"
| "Department_name R_AND_D = ''R_AND_D''"
| "Department_name MACHINING = ''MACHINING''"

definition Role_members :: "Role list" where
  "Role_members = [CEO, CFO, COO]"

definition Department_members :: "Department list" where
  "Department_members = [ACCOUNTING, FINANCE, HR, R_AND_D, MACHINING]"

text \<open>
  The exceptions the program can raise. \<open>ValueError\<close> carries the message of the
  \<^verbatim>\<open>raise\<close> statement; the two built-in conversions \<^verbatim>\<open>float(s)\<close> and \<^verbatim>\<open>int(s)\<close>
  raise it with the head of Python's message (the operand is left out).
  \<open>IndexError\<close> is a subscript past the end of a row, \<open>UnboundLocalError\<close> the read
  of a local variable that no assignment has reached.
\<close>

datatype error =
    ValueError string
  | InvalidRoleException
  | InvalidDepartmentException
  | IndexError
  | UnboundLocalError

subsection \<open>Python values\<close>

text \<open>
  A pay amount is a Python number: an \<^verbatim>\<open>int\<close>, or a \<^verbatim>\<open>float\<close>, which is a finite
  value, an infinity (\<open>PyInf True\<close> is \<^verbatim>\<open>-inf\<close>) or \<^verbatim>\<open>nan\<close>. A finite float is
  given by its exact value, which is a rational; the rounding of a float operation to
  the nearest double and its overflow are not part of the model. Python compares an
  \<^verbatim>\<open>int\<close> with a \<^verbatim>\<open>float\<close> by exact value, every comparison with \<^verbatim>\<open>nan\<close> is false.
\<close>

datatype number = PyInt int | PyFloat rat | PyInf bool | PyNaN

text \<open>\<open>lt x k\<close> is \<^verbatim>\<open>x < k\<close> and \<open>gt x k\<close> is \<^verbatim>\<open>x > k\<close> for a finite constant \<open>k\<close>.\<close>

fun lt :: "number \<Rightarrow> rat \<Rightarrow> bool" where
  "lt (PyInt i) k = (of_int i < k)"
| "lt (PyFloat q) k = (q < k)"
| "lt (PyInf negative) k = negative"
| "lt PyNaN k = False"

fun gt :: "number \<Rightarrow> rat \<Rightarrow> bool" where
  "gt (PyInt i) k = (k < of_int i)"
| "gt (PyFloat q) k = (k < q)"
| "gt (PyInf negative) k = (\<not> negative)"
| "gt PyNaN k = False"



text \<open>
  The argument that \<^verbatim>\<open>Executive\<close> and \<^verbatim>\<open>Manager\<close> receive for the role or the
  department is an arbitrary object; the model has the ones the program and its type
  annotations pass: an \<^verbatim>\<open>int\<close> or a member of one of the two enumerations. A member
  of an \<^verbatim>\<open>Enum\<close> is equal only to itself, never to an \<^verbatim>\<open>int\<close>.
\<close>

datatype pyobject = IntObj int | RoleObj Role | DepartmentObj Department

subsection \<open>The class hierarchy\<close>

text \<open>
  Each class is a record that extends the record of its base class, so a function on
  \<open>'a Employee_scheme\<close> is a method that every subclass inherits. The attribute
  \<^verbatim>\<open>image\<close> is the field \<open>image_path\<close>.
\<close>

record Employee =
  id_number :: int
  name :: string
  email :: string
  image_path :: string

record Salaried = Employee +
  yearly :: number

record Hourly = Employee +
  hourly_wage :: number

record Executive = Salaried +
  role :: Role

record Manager = Salaried +
  department :: Department

record Permanent = Hourly +
  hired_date :: string

record Temporary = Hourly +
  last_day :: string

definition IMAGE_PLACEHOLDER :: string where
  "IMAGE_PLACEHOLDER = ''./images/placeholder.png''"

subsection \<open>Property setters\<close>

text \<open>
  A setter either raises and leaves the object as it was (the \<^verbatim>\<open>raise\<close> comes before
  the assignment), or stores the value. The result is the exception, if any, and the
  object afterwards. The guard of each setter is a function of its own, since the
  constructors run the same guards on an object that has no attributes yet.
  The literal \<^verbatim>\<open>99.99\<close> is the double nearest to \<open>9999 / 100\<close>; it lies below it, and
  the next double lies above, so for an \<^verbatim>\<open>int\<close> and for a float that is a double the
  comparison with the literal and the comparison with \<open>9999 / 100\<close> agree.
\<close>

definition name_check :: "string \<Rightarrow> error option" where
  "name_check n = (if n = [] then Some (ValueError ''Name cannot be blank'') else None)"

definition email_check :: "string \<Rightarrow> error option" where
  "email_check e =
     (if e = [] then Some (ValueError ''Email cannot be blank'')
      else if \<not> sublist ''@acme-machining.com'' e
        then Some (ValueError ''Email must be from @acme-machining.com'')
      else None)"

definition image_check :: "string \<Rightarrow> error option" where
  "image_check i = (if i = [] then Some (ValueError ''Image cannot be empty.'') else None)"

definition yearly_check :: "number \<Rightarrow> error option" where
  "yearly_check y =
     (if lt y 50000 then Some (ValueError ''Yearly salary must be over $50,000'') else None)"

definition hourly_wage_check :: "number \<Rightarrow> error option" where
  "hourly_wage_check h =
     (if lt h 15 \<or> gt h (9999 / 100)
      then Some (ValueError ''Hourly wage must be between $15 and $99.99 (inclusive)'')
      else None)"

definition name_setter :: "string \<Rightarrow> 'a Employee_scheme \<Rightarrow> error option \<times> 'a Employee_scheme" where
  "name_setter n self =
     (case name_check n of Some e \<Rightarrow> (Some e, self) | None \<Rightarrow> (None, self\<lparr>name := n\<rparr>))"

definition email_setter :: "string \<Rightarrow> 'a Employee_scheme \<Rightarrow> error option \<times> 'a Employee_scheme" where
  "email_setter e self =
     (case email_check e of Some x \<Rightarrow> (Some x, self) | None \<Rightarrow> (None, self\<lparr>email := e\<rparr>))"

definition image_setter :: "string \<Rightarrow> 'a Employee_scheme \<Rightarrow> error option \<times> 'a Employee_scheme" where
  "image_setter i self =
     (case image_check i of Some e \<Rightarrow> (Some e, self) | None \<Rightarrow> (None, self\<lparr>image_path := i\<rparr>))"

definition yearly_setter :: "number \<Rightarrow> 'a Salaried_scheme \<Rightarrow> error option \<times> 'a Salaried_scheme" where
  "yearly_setter y self =
     (case yearly_check y of Some e \<Rightarrow> (Some e, self) | None \<Rightarrow> (None, self\<lparr>yearly := y\<rparr>))"

definition hourly_wage_setter :: "number \<Rightarrow> 'a Hourly_scheme \<Rightarrow> error option \<times> 'a Hourly_scheme" where
  "hourly_wage_setter h self =
     (case hourly_wage_check h of Some e \<Rightarrow> (Some e, self)
      | None \<Rightarrow> (None, self\<lparr>hourly_wage := h\<rparr>))"

subsection \<open>Constructors\<close>

text \<open>
  \<^verbatim>\<open>Employee.id_number\<close> is a class attribute, shared by the whole process: every
  constructor takes its value and returns its value afterwards, together with the new
  object or the exception that ended the construction. \<^verbatim>\<open>Employee.__init__\<close> reads
  the counter and increments it before it assigns any attribute.
\<close>

definition Employee_init :: "int \<Rightarrow> string \<Rightarrow> string \<Rightarrow> (error + Employee) \<times> int" where
  "Employee_init counter n e =
     (let self_id = counter; counter' = counter + 1 in
      case name_check n of Some x \<Rightarrow> (Inl x, counter') | None \<Rightarrow>
      (case email_check e of Some x \<Rightarrow> (Inl x, counter') | None \<Rightarrow>
      (case image_check IMAGE_PLACEHOLDER of Some x \<Rightarrow> (Inl x, counter') | None \<Rightarrow>
         (Inr \<lparr>id_number = self_id, name = n, email = e, image_path = IMAGE_PLACEHOLDER\<rparr>,
          counter'))))"

definition Salaried_init :: "int \<Rightarrow> string \<Rightarrow> string \<Rightarrow> number \<Rightarrow> (error + Salaried) \<times> int" where
  "Salaried_init counter n e y =
     (case Employee_init counter n e of
        (Inl x, counter') \<Rightarrow> (Inl x, counter')
      | (Inr self, counter') \<Rightarrow>
          (case yearly_check y of
             Some x \<Rightarrow> (Inl x, counter')
           | None \<Rightarrow> (Inr (Employee.extend self (Salaried.fields y)), counter')))"

definition Hourly_init :: "int \<Rightarrow> string \<Rightarrow> string \<Rightarrow> number \<Rightarrow> (error + Hourly) \<times> int" where
  "Hourly_init counter n e h =
     (case Employee_init counter n e of
        (Inl x, counter') \<Rightarrow> (Inl x, counter')
      | (Inr self, counter') \<Rightarrow>
          (case hourly_wage_check h of
             Some x \<Rightarrow> (Inl x, counter')
           | None \<Rightarrow> (Inr (Employee.extend self (Hourly.fields h)), counter')))"

text \<open>
  \<^verbatim>\<open>Role(role)\<close> and \<^verbatim>\<open>Department(department)\<close> look a member up by value (a member
  is returned as it is) and raise \<^verbatim>\<open>ValueError\<close> when there is none.
\<close>

fun Role_call :: "pyobject \<Rightarrow> error + Role" where
  "Role_call (RoleObj m) = Inr m"
| "Role_call (IntObj i) =
     (case find (\<lambda>m. Role_value m = i) Role_members of
        Some m \<Rightarrow> Inr m | None \<Rightarrow> Inl (ValueError ''is not a valid Role''))"
| "Role_call (DepartmentObj d) = Inl (ValueError ''is not a valid Role'')"

fun Department_call :: "pyobject \<Rightarrow> error + Department" where
  "Department_call (DepartmentObj m) = Inr m"
| "Department_call (IntObj i) =
     (case find (\<lambda>m. Department_value m = i) Department_members of
        Some m \<Rightarrow> Inr m | None \<Rightarrow> Inl (ValueError ''is not a valid Department''))"
| "Department_call (RoleObj r) = Inl (ValueError ''is not a valid Department'')"

definition Executive_init ::
  "int \<Rightarrow> string \<Rightarrow> string \<Rightarrow> number \<Rightarrow> pyobject \<Rightarrow> (error + Executive) \<times> int" where
  "Executive_init counter n e y r =
     (case Salaried_init counter n e y of
        (Inl x, counter') \<Rightarrow> (Inl x, counter')
      | (Inr self, counter') \<Rightarrow>
          if r \<notin> set (map (\<lambda>s. IntObj (Role_value s)) Role_members)
          then (Inl InvalidRoleException, counter')
          else (case Role_call r of
                  Inl x \<Rightarrow> (Inl x, counter')
                | Inr m \<Rightarrow> (Inr (Salaried.extend self (Executive.fields m)), counter')))"

definition Manager_init ::
  "int \<Rightarrow> string \<Rightarrow> string \<Rightarrow> number \<Rightarrow> pyobject \<Rightarrow> (error + Manager) \<times> int" where
  "Manager_init counter n e y d =
     (case Salaried_init counter n e y of
        (Inl x, counter') \<Rightarrow> (Inl x, counter')
      | (Inr self, counter') \<Rightarrow>
          if d \<notin> set (map (\<lambda>m. IntObj (Department_value m)) Department_members)
          then (Inl InvalidDepartmentException, counter')
          else (case Department_call d of
                  Inl x \<Rightarrow> (Inl x, counter')
                | Inr m \<Rightarrow> (Inr (Salaried.extend self (Manager.fields m)), counter')))"

text \<open>
  \<^verbatim>\<open>hired_date\<close> and \<^verbatim>\<open>last_day\<close> are stored unchecked; the program passes the text
  of the sixth field of a row.
\<close>

definition Permanent_init ::
  "int \<Rightarrow> string \<Rightarrow> string \<Rightarrow> number \<Rightarrow> string \<Rightarrow> (error + Permanent) \<times> int" where
  "Permanent_init counter n e h d =
     (case Hourly_init counter n e h of
        (Inl x, counter') \<Rightarrow> (Inl x, counter')
      | (Inr self, counter') \<Rightarrow> (Inr (Hourly.extend self (Permanent.fields d)), counter'))"

definition Temporary_init ::
  "int \<Rightarrow> string \<Rightarrow> string \<Rightarrow> number \<Rightarrow> string \<Rightarrow> (error + Temporary) \<times> int" where
  "Temporary_init counter n e h d =
     (case Hourly_init counter n e h of
        (Inl x, counter') \<Rightarrow> (Inl x, counter')
      | (Inr self, counter') \<Rightarrow> (Inr (Hourly.extend self (Temporary.fields d)), counter'))"

subsection \<open>Objects of the four concrete classes\<close>

text \<open>
  The roster holds objects of any of the four leaf classes; a method call on one of
  them dispatches on its class.
\<close>

datatype employee =
    ExecutiveObj Executive
  | ManagerObj Manager
  | PermanentObj Permanent
  | TemporaryObj Temporary

text \<open>\<^verbatim>\<open>type(e).__name__\<close>\<close>

fun type_name :: "employee \<Rightarrow> string" where
  "type_name (ExecutiveObj e) = ''Executive''"
| "type_name (ManagerObj e) = ''Manager''"
| "type_name (PermanentObj e) = ''Permanent''"
| "type_name (TemporaryObj e) = ''Temporary''"

fun employee_id :: "employee \<Rightarrow> int" where
  "employee_id (ExecutiveObj e) = id_number e"
| "employee_id (ManagerObj e) = id_number e"
| "employee_id (PermanentObj e) = id_number e"
| "employee_id (TemporaryObj e) = id_number e"




subsection \<open>Text of a number\<close>

text \<open>
  \<^verbatim>\<open>f"{x}"\<close> of a number. An \<^verbatim>\<open>int\<close> is its decimal digits. The text of a finite
  float is given for the values with at most 15 significant decimal digits that are
  zero or have a magnitude from \<open>10^-4\<close> up to \<open>10^16\<close>: there Python writes the
  decimal expansion itself, with \<^verbatim>\<open>.0\<close> after an integral value (\<^verbatim>\<open>60000.0\<close>,
  \<^verbatim>\<open>99.99\<close>). The shortest digits that Python finds for the other doubles, and its
  exponent notation, are outside the model.
\<close>

fun str_nat :: "nat \<Rightarrow> string" where
  "str_nat n =
     (if n < 10 then [''0123456789'' ! n]
      else str_nat (n div 10) @ [''0123456789'' ! (n mod 10)])"

declare str_nat.simps [simp del]

definition str_int :: "int \<Rightarrow> string" where
  "str_int i = (if i < 0 then CHR ''-'' # str_nat (nat (- i)) else str_nat (nat i))"

fun frac_digits :: "nat \<Rightarrow> rat \<Rightarrow> string" where
  "frac_digits 0 f = []"
| "frac_digits (Suc k) f =
     (if f = 0 then []
      else (let d = nat \<lfloor>f * 10\<rfloor> in
            (''0123456789'' ! d) # frac_digits k (f * 10 - of_nat d)))"

definition float_repr :: "rat \<Rightarrow> string" where
  "float_repr q =
     (let a = \<bar>q\<bar>; n = nat \<lfloor>a\<rfloor>; f = a - of_nat n in
      (if q < 0 then ''-'' else []) @ str_nat n @ ''.'' @
      (if f = 0 then ''0'' else frac_digits 20 f))"

fun str_number :: "number \<Rightarrow> string" where
  "str_number (PyInt i) = str_int i"
| "str_number (PyFloat q) = float_repr q"
| "str_number (PyInf negative) = (if negative then ''-inf'' else ''inf'')"
| "str_number PyNaN = ''nan''"

subsection \<open>\<^verbatim>\<open>__repr__\<close> and \<^verbatim>\<open>save_file\<close> (gui.py)\<close>

text \<open>
  Each \<^verbatim>\<open>__repr__\<close> appends its own attribute to the text of its base class; the
  separator is \<^verbatim>\<open>", "\<close> in \<^verbatim>\<open>Employee\<close>, \<^verbatim>\<open>Salaried\<close> and \<^verbatim>\<open>Temporary\<close> and
  \<^verbatim>\<open>","\<close> in the others.
\<close>

definition Employee_repr :: "'a Employee_scheme \<Rightarrow> string" where
  "Employee_repr self = name self @ '', '' @ email self @ '', '' @ image_path self"

definition Salaried_repr :: "'a Salaried_scheme \<Rightarrow> string" where
  "Salaried_repr self = Employee_repr self @ '', '' @ str_number (yearly self)"

definition Hourly_repr :: "'a Hourly_scheme \<Rightarrow> string" where
  "Hourly_repr self = Employee_repr self @ '','' @ str_number (hourly_wage self)"

definition Executive_repr :: "Executive \<Rightarrow> string" where
  "Executive_repr self = Salaried_repr self @ '','' @ Role_name (role self)"

definition Manager_repr :: "Manager \<Rightarrow> string" where
  "Manager_repr self = Salaried_repr self @ '','' @ Department_name (department self)"

definition Permanent_repr :: "Permanent \<Rightarrow> string" where
  "Permanent_repr self = Hourly_repr self @ '','' @ hired_date self"

definition Temporary_repr :: "Temporary \<Rightarrow> string" where
  "Temporary_repr self = Hourly_repr self @ '', '' @ last_day self"

fun repr :: "employee \<Rightarrow> string" where
  "repr (ExecutiveObj e) = Executive_repr e"
| "repr (ManagerObj e) = Manager_repr e"
| "repr (PermanentObj e) = Permanent_repr e"
| "repr (TemporaryObj e) = Temporary_repr e"

definition newline :: char where
  "newline = CHR 0x0A"

text \<open>
  \<^verbatim>\<open>save_file\<close> writes one line for each employee of \<^verbatim>\<open>self._data\<close>, in order, to a
  file opened for writing: \<open>save_line\<close> is the text of one \<^verbatim>\<open>file.write\<close>,
  \<open>save_file\<close> the content of the file afterwards.
\<close>

definition save_line :: "employee \<Rightarrow> string" where
  "save_line employee = type_name employee @ '','' @ repr employee @ [newline]"

definition save_file :: "employee list \<Rightarrow> string" where
  "save_file data = concat (map save_line data)"

subsection \<open>\<^verbatim>\<open>csv.reader\<close>\<close>

text \<open>
  The reader of Python's \<^verbatim>\<open>csv\<close> module with the default dialect (delimiter
  \<^verbatim>\<open>,\<close>, quote character \<^verbatim>\<open>"\<close>, doubled quotes, no escape character, not strict),
  as the state machine of its implementation, over the text of a file opened in text
  mode, where every line break is the one character \<open>newline\<close>. \<open>csv_rows s f r\<close>
  is in state \<open>s\<close> with the characters \<open>f\<close> of the current field and the fields \<open>r\<close>
  of the current row, and returns the rows that follow. An empty line gives the
  empty row; the end of the text ends a row that has begun. The limit on the length
  of a field is not modelled.
\<close>

datatype csv_state =
  START_RECORD | START_FIELD | IN_FIELD | IN_QUOTED_FIELD | QUOTE_IN_QUOTED_FIELD

fun csv_rows :: "csv_state \<Rightarrow> string \<Rightarrow> string list \<Rightarrow> string \<Rightarrow> string list list" where
  "csv_rows s f r [] = (if s = START_RECORD then [] else [r @ [f]])"
| "csv_rows s f r (c # cs) =
     (if s = IN_QUOTED_FIELD then
        (if c = CHR 0x22 then csv_rows QUOTE_IN_QUOTED_FIELD f r cs
         else csv_rows IN_QUOTED_FIELD (f @ [c]) r cs)
      else if c = newline then
        (if s = START_RECORD then [] # csv_rows START_RECORD [] [] cs
         else (r @ [f]) # csv_rows START_RECORD [] [] cs)
      else if c = CHR '','' then csv_rows START_FIELD [] (r @ [f]) cs
      else if c = CHR 0x22 \<and> (s = START_RECORD \<or> s = START_FIELD) then
        csv_rows IN_QUOTED_FIELD f r cs
      else if c = CHR 0x22 \<and> s = QUOTE_IN_QUOTED_FIELD then
        csv_rows IN_QUOTED_FIELD (f @ [c]) r cs
      else csv_rows IN_FIELD (f @ [c]) r cs)"

definition csv_reader :: "string \<Rightarrow> string list list" where
  "csv_reader text = csv_rows START_RECORD [] [] text"

subsection \<open>\<^verbatim>\<open>float(s)\<close> and \<^verbatim>\<open>int(s)\<close>\<close>

text \<open>
  The two conversions on ASCII text. Both strip white space at either end and accept
  a sign; a run of digits may have single underscores between digits. \<^verbatim>\<open>float\<close>
  accepts a decimal number with an optional fraction and exponent, and the words
  \<^verbatim>\<open>inf\<close>, \<^verbatim>\<open>infinity\<close> and \<^verbatim>\<open>nan\<close> in any case. The value of a decimal number is
  exact (see \<open>number\<close>).
\<close>

definition whitespace :: "char list" where
  "whitespace =
     [CHR 0x09, CHR 0x0A, CHR 0x0B, CHR 0x0C, CHR 0x0D, CHR 0x20]"

definition strip :: "string \<Rightarrow> string" where
  "strip s =
     rev (dropWhile (\<lambda>c. c \<in> set whitespace) (rev (dropWhile (\<lambda>c. c \<in> set whitespace) s)))"

definition digit :: "char \<Rightarrow> nat option" where
  "digit c = map_of (zip ''0123456789'' [0, 1, 2, 3, 4, 5, 6, 7, 8, 9]) c"

fun digitpart :: "string \<Rightarrow> nat list option" where
  "digitpart [] = None"
| "digitpart [c] = map_option (\<lambda>d. [d]) (digit c)"
| "digitpart (c # d # cs) =
     (case digit c of
        None \<Rightarrow> None
      | Some v \<Rightarrow>
          map_option (Cons v) (if d = CHR ''_'' then digitpart cs else digitpart (d # cs)))"

definition digits_value :: "nat list \<Rightarrow> nat" where
  "digits_value ds = foldl (\<lambda>a d. 10 * a + d) 0 ds"

definition py_int :: "string \<Rightarrow> error + int" where
  "py_int s =
     (let t = strip s;
          negative = (t \<noteq> [] \<and> hd t = CHR ''-'');
          u = (if t \<noteq> [] \<and> (hd t = CHR ''-'' \<or> hd t = CHR ''+'') then tl t else t)
      in case digitpart u of
           None \<Rightarrow> Inl (ValueError ''invalid literal for int() with base 10'')
         | Some ds \<Rightarrow> Inr (if negative then - int (digits_value ds) else int (digits_value ds)))"

definition lower :: "char \<Rightarrow> char" where
  "lower c =
     (case map_of (zip ''ABCDEFGHIJKLMNOPQRSTUVWXYZ'' ''abcdefghijklmnopqrstuvwxyz'') c of
        None \<Rightarrow> c | Some l \<Rightarrow> l)"

definition mantissa :: "string \<Rightarrow> rat option" where
  "mantissa m =
     (let ip = takeWhile (\<lambda>c. c \<noteq> CHR ''.'') m; rest = dropWhile (\<lambda>c. c \<noteq> CHR ''.'') m in
      if rest = [] then map_option (\<lambda>ds. of_nat (digits_value ds)) (digitpart ip)
      else (let fp = tl rest in
            if ip = [] \<and> fp = [] then None
            else (case (if ip = [] then Some [] else digitpart ip,
                        if fp = [] then Some [] else digitpart fp) of
                    (Some is, Some fs) \<Rightarrow>
                      Some (of_nat (digits_value is) + of_nat (digits_value fs) / 10 ^ length fs)
                  | _ \<Rightarrow> None)))"

definition exponent :: "string \<Rightarrow> int option" where
  "exponent x =
     (let negative = (x \<noteq> [] \<and> hd x = CHR ''-'');
          u = (if x \<noteq> [] \<and> (hd x = CHR ''-'' \<or> hd x = CHR ''+'') then tl x else x)
      in map_option (\<lambda>ds. if negative then - int (digits_value ds) else int (digits_value ds))
           (digitpart u))"

definition floatnumber :: "string \<Rightarrow> rat option" where
  "floatnumber u =
     (let m = takeWhile (\<lambda>c. c \<noteq> CHR ''e'' \<and> c \<noteq> CHR ''E'') u;
          rest = dropWhile (\<lambda>c. c \<noteq> CHR ''e'' \<and> c \<noteq> CHR ''E'') u
      in case mantissa m of
           None \<Rightarrow> None
         | Some q \<Rightarrow>
             if rest = [] then Some q
             else (case exponent (tl rest) of
                     None \<Rightarrow> None
                   | Some k \<Rightarrow> Some (if 0 \<le> k then q * 10 ^ nat k else q / 10 ^ nat (- k))))"

definition py_float :: "string \<Rightarrow> error + number" where
  "py_float s =
     (let t = strip s;
          negative = (t \<noteq> [] \<and> hd t = CHR ''-'');
          u = (if t \<noteq> [] \<and> (hd t = CHR ''-'' \<or> hd t = CHR ''+'') then tl t else t);
          l = map lower u
      in if l = ''inf'' \<or> l = ''infinity'' then Inr (PyInf negative)
         else if l = ''nan'' then Inr PyNaN
         else (case floatnumber u of
                 None \<Rightarrow> Inl (ValueError ''could not convert string to float'')
               | Some q \<Rightarrow> Inr (PyFloat (if negative then - q else q))))"

subsection \<open>\<^verbatim>\<open>load_file\<close> (gui.py)\<close>

text \<open>
  The four constructor calls that \<^verbatim>\<open>load_file\<close> makes, as data, and their
  evaluation: the new object of the class, or the exception, and the counter
  afterwards.
\<close>

datatype call =
    ExecutiveCall string string number pyobject
  | ManagerCall string string number pyobject
  | TemporaryCall string string number string
  | PermanentCall string string number string

fun construct :: "int \<Rightarrow> call \<Rightarrow> (error + employee) \<times> int" where
  "construct counter (ExecutiveCall n e y r) =
     (case Executive_init counter n e y r of
        (Inl x, c) \<Rightarrow> (Inl x, c) | (Inr self, c) \<Rightarrow> (Inr (ExecutiveObj self), c))"
| "construct counter (ManagerCall n e y d) =
     (case Manager_init counter n e y d of
        (Inl x, c) \<Rightarrow> (Inl x, c) | (Inr self, c) \<Rightarrow> (Inr (ManagerObj self), c))"
| "construct counter (TemporaryCall n e h d) =
     (case Temporary_init counter n e h d of
        (Inl x, c) \<Rightarrow> (Inl x, c) | (Inr self, c) \<Rightarrow> (Inr (TemporaryObj self), c))"
| "construct counter (PermanentCall n e h d) =
     (case Permanent_init counter n e h d of
        (Inl x, c) \<Rightarrow> (Inl x, c) | (Inr self, c) \<Rightarrow> (Inr (PermanentObj self), c))"

text \<open>\<^verbatim>\<open>row[i]\<close> raises \<^verbatim>\<open>IndexError\<close> past the end of the row.\<close>

definition subscript :: "string list \<Rightarrow> nat \<Rightarrow> error + string" where
  "subscript row i = (if i < length row then Inr (row ! i) else Inl IndexError)"

definition and_then :: "error + 'a \<Rightarrow> ('a \<Rightarrow> error + 'b) \<Rightarrow> error + 'b" where
  "and_then r f = (case r of Inl x \<Rightarrow> Inl x | Inr v \<Rightarrow> f v)"

text \<open>
  The body of the loop up to the constructor call: the statements run in the order of
  the source, the first exception ends them. The four \<^verbatim>\<open>if\<close> statements test the
  first field against four different constants, so at most one of them runs; when
  none does the result is \<open>None\<close> and \<^verbatim>\<open>employee\<close> is not assigned in this
  iteration.
\<close>

definition row_call :: "string list \<Rightarrow> error + call option" where
  "row_call row =
     and_then (subscript row 0) (\<lambda>type.
     and_then (subscript row 1) (\<lambda>name.
     and_then (subscript row 2) (\<lambda>email.
     and_then (subscript row 3) (\<lambda>image_field.
       if type = ''Executive'' then
         and_then (subscript row 4) (\<lambda>f. and_then (py_float f) (\<lambda>salary.
         and_then (subscript row 5) (\<lambda>r. and_then (py_int r) (\<lambda>role.
           Inr (Some (ExecutiveCall name email salary (IntObj role)))))))
       else if type = ''Manager'' then
         and_then (subscript row 4) (\<lambda>f. and_then (py_float f) (\<lambda>salary.
         and_then (subscript row 5) (\<lambda>d. and_then (py_int d) (\<lambda>department.
           Inr (Some (ManagerCall name email salary (IntObj department)))))))
       else if type = ''Temp'' then
         and_then (subscript row 4) (\<lambda>f. and_then (py_float f) (\<lambda>hourly.
         and_then (subscript row 5) (\<lambda>last_day.
           Inr (Some (TemporaryCall name email hourly last_day)))))
       else if type = ''Permanent'' then
         and_then (subscript row 4) (\<lambda>f. and_then (py_float f) (\<lambda>hourly.
         and_then (subscript row 5) (\<lambda>hired_date.
           Inr (Some (PermanentCall name email hourly hired_date)))))
       else Inr None))))"

text \<open>
  The state that \<^verbatim>\<open>load_file\<close> changes: the class attribute \<^verbatim>\<open>Employee.id_number\<close>
  and the list \<^verbatim>\<open>self._data\<close> of the window. The loop carries the local variable
  \<^verbatim>\<open>employee\<close>, which is unbound (\<open>None\<close>) until an iteration assigns it and keeps
  its object from one iteration to the next; \<^verbatim>\<open>print(employee)\<close> raises
  \<^verbatim>\<open>UnboundLocalError\<close> while it is unbound. An exception leaves the loop at once,
  with the state as it is then.
\<close>

record program =
  Employee_id_number :: int
  data :: "employee list"

fun load_rows :: "employee option \<Rightarrow> program \<Rightarrow> string list list \<Rightarrow> error option \<times> program" where
  "load_rows employee st [] = (None, st)"
| "load_rows employee st (row # rows) =
     (case row_call row of
        Inl x \<Rightarrow> (Some x, st)
      | Inr None \<Rightarrow>
          (case employee of
             None \<Rightarrow> (Some UnboundLocalError, st)
           | Some e \<Rightarrow> load_rows (Some e) (st\<lparr>data := data st @ [e]\<rparr>) rows)
      | Inr (Some c) \<Rightarrow>
          (case construct (Employee_id_number st) c of
             (Inl x, counter) \<Rightarrow> (Some x, st\<lparr>Employee_id_number := counter\<rparr>)
           | (Inr e, counter) \<Rightarrow>
               load_rows (Some e)
                 (st\<lparr>Employee_id_number := counter, data := data st @ [e]\<rparr>) rows))"

text \<open>
  \<^verbatim>\<open>open('./employee.data')\<close> reads in text mode with universal newlines: a carriage
  return, with the line feed that follows it if there is one, reaches the program as
  the one character \<open>newline\<close>. \<open>load_file content st\<close> runs \<^verbatim>\<open>load_file\<close> on a file
  with the given content.
\<close>

fun universal_newlines :: "string \<Rightarrow> string" where
  "universal_newlines [] = []"
| "universal_newlines [c] = [if c = CHR 0x0D then newline else c]"
| "universal_newlines (c # d # cs) =
     (if c = CHR 0x0D \<and> d = newline then newline # universal_newlines cs
      else if c = CHR 0x0D then newline # universal_newlines (d # cs)
      else c # universal_newlines (d # cs))"

definition load_file :: "string \<Rightarrow> program \<Rightarrow> error option \<times> program" where
  "load_file content st = load_rows None st (csv_reader (universal_newlines content))"

text \<open>
  \<^verbatim>\<open>MainWindow.__init__\<close> sets \<^verbatim>\<open>self._data = []\<close> and calls \<^verbatim>\<open>load_file\<close>; the
  menu action \<^verbatim>\<open>Load HR Data\<close> calls \<^verbatim>\<open>load_file\<close> again on the same window.
\<close>

definition MainWindow_init :: "string \<Rightarrow> int \<Rightarrow> error option \<times> program" where
  "MainWindow_init content counter =
     load_file content \<lparr>Employee_id_number = counter, data = []\<rparr>"

subsection \<open>Notions used to state the properties\<close>

text \<open>
  A caller that evaluates constructor calls one after the other and catches the
  exception of each: the outcomes in order, and the counter at the end.
\<close>

fun construct_all :: "int \<Rightarrow> call list \<Rightarrow> (error + employee) list \<times> int" where
  "construct_all counter [] = ([], counter)"
| "construct_all counter (k # ks) =
     (case construct counter k of
        (r, counter') \<Rightarrow>
          (case construct_all counter' ks of (rs, counter'') \<Rightarrow> (r # rs, counter'')))"

text \<open>An object with its \<^verbatim>\<open>id_number\<close> set to 0, to compare objects up to their identity.\<close>

fun without_id :: "employee \<Rightarrow> employee" where
  "without_id (ExecutiveObj e) = ExecutiveObj (e\<lparr>id_number := 0\<rparr>)"
| "without_id (ManagerObj e) = ManagerObj (e\<lparr>id_number := 0\<rparr>)"
| "without_id (PermanentObj e) = PermanentObj (e\<lparr>id_number := 0\<rparr>)"
| "without_id (TemporaryObj e) = TemporaryObj (e\<lparr>id_number := 0\<rparr>)"

text \<open>
  A text with no comma, no double quote and no line break: the characters that the
  CSV reader treats specially.
\<close>

definition plain :: "string \<Rightarrow> bool" where
  "plain s = (\<forall>c \<in> set s. c \<noteq> CHR '','' \<and> c \<noteq> CHR 0x22 \<and> c \<noteq> newline \<and> c \<noteq> CHR 0x0D)"



section \<open>Properties\<close>

subsection \<open>What the constructors return\<close>

lemma image_check_placeholder: "image_check IMAGE_PLACEHOLDER = None"
  by (simp add: image_check_def IMAGE_PLACEHOLDER_def)

lemma Employee_init_eq:
  "Employee_init c n e =
     (case name_check n of Some x \<Rightarrow> Inl x | None \<Rightarrow>
        (case email_check e of Some x \<Rightarrow> Inl x | None \<Rightarrow>
           Inr \<lparr>id_number = c, name = n, email = e, image_path = IMAGE_PLACEHOLDER\<rparr>),
      c + 1)"
  by (simp add: Employee_init_def image_check_placeholder split: option.splits)

lemma Salaried_init_eq:
  "Salaried_init c n e y =
     (case name_check n of Some x \<Rightarrow> Inl x | None \<Rightarrow>
        (case email_check e of Some x \<Rightarrow> Inl x | None \<Rightarrow>
           (case yearly_check y of Some x \<Rightarrow> Inl x | None \<Rightarrow>
              Inr \<lparr>id_number = c, name = n, email = e, image_path = IMAGE_PLACEHOLDER,
                   yearly = y\<rparr>)),
      c + 1)"
  by (simp add: Salaried_init_def Employee_init_eq Employee.defs Salaried.defs
      split: option.splits)

lemma Hourly_init_eq:
  "Hourly_init c n e h =
     (case name_check n of Some x \<Rightarrow> Inl x | None \<Rightarrow>
        (case email_check e of Some x \<Rightarrow> Inl x | None \<Rightarrow>
           (case hourly_wage_check h of Some x \<Rightarrow> Inl x | None \<Rightarrow>
              Inr \<lparr>id_number = c, name = n, email = e, image_path = IMAGE_PLACEHOLDER,
                   hourly_wage = h\<rparr>)),
      c + 1)"
  by (simp add: Hourly_init_def Employee_init_eq Employee.defs Hourly.defs
      split: option.splits)

lemma Role_members_values:
  "(IntObj i \<in> (\<lambda>s. IntObj (Role_value s)) ` set Role_members) = (1 \<le> i \<and> i \<le> 3)"
  by (auto simp add: Role_members_def)

lemma Department_members_values:
  "(IntObj i \<in> (\<lambda>m. IntObj (Department_value m)) ` set Department_members)
     = (1 \<le> i \<and> i \<le> 5)"
  by (auto simp add: Department_members_def)

lemma Role_call_value:
  "1 \<le> i \<Longrightarrow> i \<le> 3 \<Longrightarrow> \<exists>m. Role_call (IntObj i) = Inr m \<and> Role_value m = i"
proof -
  assume "1 \<le> i" "i \<le> 3"
  then have "i = 1 \<or> i = 2 \<or> i = 3" by arith
  then show ?thesis by (auto simp add: Role_members_def)
qed

lemma Department_call_value:
  "1 \<le> i \<Longrightarrow> i \<le> 5 \<Longrightarrow>
     \<exists>m. Department_call (IntObj i) = Inr m \<and> Department_value m = i"
proof -
  assume "1 \<le> i" "i \<le> 5"
  then have "i = 1 \<or> i = 2 \<or> i = 3 \<or> i = 4 \<or> i = 5" by arith
  then show ?thesis by (auto simp add: Department_members_def)
qed

lemma Executive_init_eq:
  "Executive_init c n e y r =
     (case name_check n of Some x \<Rightarrow> Inl x | None \<Rightarrow>
        (case email_check e of Some x \<Rightarrow> Inl x | None \<Rightarrow>
           (case yearly_check y of Some x \<Rightarrow> Inl x | None \<Rightarrow>
              if r \<notin> set (map (\<lambda>s. IntObj (Role_value s)) Role_members)
              then Inl InvalidRoleException
              else (case Role_call r of Inl x \<Rightarrow> Inl x | Inr m \<Rightarrow>
                Inr \<lparr>id_number = c, name = n, email = e, image_path = IMAGE_PLACEHOLDER,
                     yearly = y, role = m\<rparr>))),
      c + 1)"
  by (simp add: Executive_init_def Salaried_init_eq Salaried.defs Executive.defs
      split: option.splits sum.splits)

lemma Manager_init_eq:
  "Manager_init c n e y d =
     (case name_check n of Some x \<Rightarrow> Inl x | None \<Rightarrow>
        (case email_check e of Some x \<Rightarrow> Inl x | None \<Rightarrow>
           (case yearly_check y of Some x \<Rightarrow> Inl x | None \<Rightarrow>
              if d \<notin> set (map (\<lambda>m. IntObj (Department_value m)) Department_members)
              then Inl InvalidDepartmentException
              else (case Department_call d of Inl x \<Rightarrow> Inl x | Inr m \<Rightarrow>
                Inr \<lparr>id_number = c, name = n, email = e, image_path = IMAGE_PLACEHOLDER,
                     yearly = y, department = m\<rparr>))),
      c + 1)"
  by (simp add: Manager_init_def Salaried_init_eq Salaried.defs Manager.defs
      split: option.splits sum.splits)

lemma Permanent_init_eq:
  "Permanent_init c n e h d =
     (case name_check n of Some x \<Rightarrow> Inl x | None \<Rightarrow>
        (case email_check e of Some x \<Rightarrow> Inl x | None \<Rightarrow>
           (case hourly_wage_check h of Some x \<Rightarrow> Inl x | None \<Rightarrow>
              Inr \<lparr>id_number = c, name = n, email = e, image_path = IMAGE_PLACEHOLDER,
                   hourly_wage = h, hired_date = d\<rparr>)),
      c + 1)"
  by (simp add: Permanent_init_def Hourly_init_eq Hourly.defs Permanent.defs
      split: option.splits)

lemma Temporary_init_eq:
  "Temporary_init c n e h d =
     (case name_check n of Some x \<Rightarrow> Inl x | None \<Rightarrow>
        (case email_check e of Some x \<Rightarrow> Inl x | None \<Rightarrow>
           (case hourly_wage_check h of Some x \<Rightarrow> Inl x | None \<Rightarrow>
              Inr \<lparr>id_number = c, name = n, email = e, image_path = IMAGE_PLACEHOLDER,
                   hourly_wage = h, last_day = d\<rparr>)),
      c + 1)"
  by (simp add: Temporary_init_def Hourly_init_eq Hourly.defs Temporary.defs
      split: option.splits)

lemmas init_eqs = Executive_init_eq Manager_init_eq Permanent_init_eq Temporary_init_eq

lemma snd_construct: "snd (construct c k) = c + 1"
  by (cases k) (simp_all add: init_eqs split: sum.splits)

lemma id_construct:
  assumes "fst (construct c k) = Inr x"
  shows "employee_id x = c"
  using assms
  by (cases k) (auto simp add: init_eqs split: sum.splits option.splits if_splits)

lemma valid_email: "email_check ''ann@acme-machining.com'' = None"
  by (simp add: email_check_def sublist_code)

lemma valid_name: "name_check ''Ann'' = None"
  by (simp add: name_check_def)

subsection \<open>Weekly pay\<close>



subsection \<open>Validation of the pay amounts\<close>

lemma yearly_setter_eq:
  "yearly_setter y s =
     (if lt y 50000 then (Some (ValueError ''Yearly salary must be over $50,000''), s)
      else (None, s\<lparr>yearly := y\<rparr>))"
  by (simp add: yearly_setter_def yearly_check_def)

lemma hourly_wage_setter_eq:
  "hourly_wage_setter h t =
     (if lt h 15 \<or> gt h (9999 / 100)
      then (Some (ValueError ''Hourly wage must be between $15 and $99.99 (inclusive)''), t)
      else (None, t\<lparr>hourly_wage := h\<rparr>))"
  by (simp add: hourly_wage_setter_def hourly_wage_check_def)

lemma yearly_error_Executive:
  "name_check n = None \<Longrightarrow> email_check e = None \<Longrightarrow>
   (fst (Executive_init c n e y r) = Inl (ValueError ''Yearly salary must be over $50,000''))
     = lt y 50000"
  by (auto simp add: Executive_init_eq yearly_check_def Role_members_def
      split: sum.splits pyobject.splits option.splits)

lemma yearly_error_Manager:
  "name_check n = None \<Longrightarrow> email_check e = None \<Longrightarrow>
   (fst (Manager_init c n e y r) = Inl (ValueError ''Yearly salary must be over $50,000''))
     = lt y 50000"
  by (auto simp add: Manager_init_eq yearly_check_def Department_members_def
      split: sum.splits pyobject.splits option.splits)

lemma hourly_error_Permanent:
  "name_check n = None \<Longrightarrow> email_check e = None \<Longrightarrow>
   (fst (Permanent_init c n e h d)
      = Inl (ValueError ''Hourly wage must be between $15 and $99.99 (inclusive)''))
     = (lt h 15 \<or> gt h (9999 / 100))"
  by (simp add: Permanent_init_eq hourly_wage_check_def)

lemma hourly_error_Temporary:
  "name_check n = None \<Longrightarrow> email_check e = None \<Longrightarrow>
   (fst (Temporary_init c n e h d)
      = Inl (ValueError ''Hourly wage must be between $15 and $99.99 (inclusive)''))
     = (lt h 15 \<or> gt h (9999 / 100))"
  by (simp add: Temporary_init_eq hourly_wage_check_def)

text \<open>
  C5. The setter of \<^verbatim>\<open>yearly\<close> raises \<^verbatim>\<open>ValueError\<close> exactly when the amount is below
  50000 and stores it otherwise, with no upper bound; the setter of \<^verbatim>\<open>hourly_wage\<close>
  raises \<^verbatim>\<open>ValueError\<close> exactly when the rate is below 15 or above 99.99. A setter
  that raises leaves the object as it was. The constructors of the four classes, given
  a name and an email that pass their checks, raise that error under the same
  condition. So 49999.99 is refused and 50000 accepted as a yearly amount, and 14.99
  and 100.00 are refused and 99.99 and 15 accepted as an hourly wage.
  (\<^verbatim>\<open>ValueError\<close> is the program's invalid-field failure.)
\<close>

theorem amount_validation:
  "yearly_setter y s =
     (if lt y 50000 then (Some (ValueError ''Yearly salary must be over $50,000''), s)
      else (None, s\<lparr>yearly := y\<rparr>)) \<and>
   hourly_wage_setter h t =
     (if lt h 15 \<or> gt h (9999 / 100)
      then (Some (ValueError ''Hourly wage must be between $15 and $99.99 (inclusive)''), t)
      else (None, t\<lparr>hourly_wage := h\<rparr>)) \<and>
   (name_check n = None \<and> email_check e = None \<longrightarrow>
      (fst (Executive_init c n e y r) = Inl (ValueError ''Yearly salary must be over $50,000''))
        = lt y 50000 \<and>
      (fst (Manager_init c n e y r) = Inl (ValueError ''Yearly salary must be over $50,000''))
        = lt y 50000 \<and>
      (fst (Permanent_init c n e h d)
         = Inl (ValueError ''Hourly wage must be between $15 and $99.99 (inclusive)''))
        = (lt h 15 \<or> gt h (9999 / 100)) \<and>
      (fst (Temporary_init c n e h d)
         = Inl (ValueError ''Hourly wage must be between $15 and $99.99 (inclusive)''))
        = (lt h 15 \<or> gt h (9999 / 100))) \<and>
   lt (PyFloat (4999999 / 100)) 50000 \<and> \<not> lt (PyFloat 50000) 50000 \<and>
   \<not> lt (PyInt 50000) 50000 \<and>
   lt (PyFloat (1499 / 100)) 15 \<and> gt (PyFloat 100) (9999 / 100) \<and>
   \<not> (lt (PyFloat (9999 / 100)) 15 \<or> gt (PyFloat (9999 / 100)) (9999 / 100)) \<and>
   \<not> (lt (PyInt 15) 15 \<or> gt (PyInt 15) (9999 / 100))"
  using yearly_setter_eq [of y s] hourly_wage_setter_eq [of h t]
    yearly_error_Executive [of n e c y r] yearly_error_Manager [of n e c y r]
    hourly_error_Permanent [of n e c h d] hourly_error_Temporary [of n e c h d]
  by simp

theorem amount_validation_witness:
  "name_check ''Ann'' = None \<and> email_check ''ann@acme-machining.com'' = None \<and>
   fst (Executive_init 0 ''Ann'' ''ann@acme-machining.com'' (PyFloat (4999999 / 100)) (IntObj 1))
     = Inl (ValueError ''Yearly salary must be over $50,000'') \<and>
   fst (Manager_init 0 ''Ann'' ''ann@acme-machining.com'' (PyFloat (4999999 / 100)) (IntObj 1))
     = Inl (ValueError ''Yearly salary must be over $50,000'') \<and>
   fst (Permanent_init 0 ''Ann'' ''ann@acme-machining.com'' (PyFloat 100) ''2020-01-01'')
     = Inl (ValueError ''Hourly wage must be between $15 and $99.99 (inclusive)'') \<and>
   fst (Temporary_init 0 ''Ann'' ''ann@acme-machining.com'' (PyFloat 100) ''2020-01-01'')
     = Inl (ValueError ''Hourly wage must be between $15 and $99.99 (inclusive)'')"
proof -
  have "lt (PyFloat (4999999 / 100)) 50000"
    and "lt (PyFloat 100) 15 \<or> gt (PyFloat 100) (9999 / 100)"
    by simp_all
  with valid_name valid_email
    amount_validation [of "PyFloat (4999999 / 100)" _ "PyFloat 100" _ "''Ann''"
      "''ann@acme-machining.com''" 0 "IntObj 1" "''2020-01-01''"]
  show ?thesis by blast
qed

subsection \<open>The role and the department argument\<close>

text \<open>
  C9. With a name, an email and a yearly amount that pass their checks, \<^verbatim>\<open>Manager\<close>
  succeeds on a raw \<^verbatim>\<open>int\<close> exactly when it is one of 1..5, and then stores the member
  of \<^verbatim>\<open>Department\<close> with that value; on any other \<^verbatim>\<open>int\<close>, and on a member of
  \<^verbatim>\<open>Department\<close> itself, it raises \<^verbatim>\<open>InvalidDepartmentException\<close>. \<^verbatim>\<open>Executive\<close> does
  the same with the values 1..3 of \<^verbatim>\<open>Role\<close> and \<^verbatim>\<open>InvalidRoleException\<close>.
\<close>

theorem enumeration_argument_is_raw_value:
  "name_check n = None \<and> email_check e = None \<and> yearly_check y = None \<longrightarrow>
     (\<exists>x. fst (Manager_init c n e y (IntObj i)) = Inr x) = (1 \<le> i \<and> i \<le> 5) \<and>
     (\<forall>x. fst (Manager_init c n e y (IntObj i)) = Inr x \<longrightarrow>
        Department_value (department x) = i) \<and>
     (\<not> (1 \<le> i \<and> i \<le> 5) \<longrightarrow>
        fst (Manager_init c n e y (IntObj i)) = Inl InvalidDepartmentException) \<and>
     fst (Manager_init c n e y (DepartmentObj d)) = Inl InvalidDepartmentException \<and>
     (\<exists>x. fst (Executive_init c n e y (IntObj i)) = Inr x) = (1 \<le> i \<and> i \<le> 3) \<and>
     (\<forall>x. fst (Executive_init c n e y (IntObj i)) = Inr x \<longrightarrow> Role_value (role x) = i) \<and>
     (\<not> (1 \<le> i \<and> i \<le> 3) \<longrightarrow>
        fst (Executive_init c n e y (IntObj i)) = Inl InvalidRoleException) \<and>
     fst (Executive_init c n e y (RoleObj r)) = Inl InvalidRoleException"
proof (intro impI, elim conjE)
  assume v: "name_check n = None" "email_check e = None" "yearly_check y = None"
  have m: "fst (Manager_init c n e y (IntObj i)) =
      (if 1 \<le> i \<and> i \<le> 5
       then (case Department_call (IntObj i) of Inl x \<Rightarrow> Inl x | Inr m \<Rightarrow>
          Inr \<lparr>id_number = c, name = n, email = e, image_path = IMAGE_PLACEHOLDER,
               yearly = y, department = m\<rparr>)
       else Inl InvalidDepartmentException)"
    using v by (simp add: Manager_init_eq Department_members_values del: Department_call.simps)
  have x: "fst (Executive_init c n e y (IntObj i)) =
      (if 1 \<le> i \<and> i \<le> 3
       then (case Role_call (IntObj i) of Inl x \<Rightarrow> Inl x | Inr m \<Rightarrow>
          Inr \<lparr>id_number = c, name = n, email = e, image_path = IMAGE_PLACEHOLDER,
               yearly = y, role = m\<rparr>)
       else Inl InvalidRoleException)"
    using v by (simp add: Executive_init_eq Role_members_values del: Role_call.simps)
  have md: "fst (Manager_init c n e y (DepartmentObj d)) = Inl InvalidDepartmentException"
    using v by (auto simp add: Manager_init_eq Department_members_def)
  have xr: "fst (Executive_init c n e y (RoleObj r)) = Inl InvalidRoleException"
    using v by (auto simp add: Executive_init_eq Role_members_def)
  have m1: "(\<exists>x. fst (Manager_init c n e y (IntObj i)) = Inr x) = (1 \<le> i \<and> i \<le> 5)"
    using Department_call_value [of i] by (auto simp add: m simp del: Department_call.simps)
  have m2: "\<forall>x. fst (Manager_init c n e y (IntObj i)) = Inr x \<longrightarrow>
      Department_value (department x) = i"
    using Department_call_value [of i]
    by (auto simp add: m simp del: Department_call.simps split: if_splits)
  have m3: "\<not> (1 \<le> i \<and> i \<le> 5) \<longrightarrow>
      fst (Manager_init c n e y (IntObj i)) = Inl InvalidDepartmentException"
    by (simp add: m)
  have x1: "(\<exists>x. fst (Executive_init c n e y (IntObj i)) = Inr x) = (1 \<le> i \<and> i \<le> 3)"
    using Role_call_value [of i] by (auto simp add: x simp del: Role_call.simps)
  have x2: "\<forall>z. fst (Executive_init c n e y (IntObj i)) = Inr z \<longrightarrow> Role_value (role z) = i"
    using Role_call_value [of i]
    by (auto simp add: x simp del: Role_call.simps split: if_splits)
  have x3: "\<not> (1 \<le> i \<and> i \<le> 3) \<longrightarrow>
      fst (Executive_init c n e y (IntObj i)) = Inl InvalidRoleException"
    by (simp add: x)
  from m1 m2 m3 md x1 x2 x3 xr
  show "(\<exists>x. fst (Manager_init c n e y (IntObj i)) = Inr x) = (1 \<le> i \<and> i \<le> 5) \<and>
     (\<forall>x. fst (Manager_init c n e y (IntObj i)) = Inr x \<longrightarrow>
        Department_value (department x) = i) \<and>
     (\<not> (1 \<le> i \<and> i \<le> 5) \<longrightarrow>
        fst (Manager_init c n e y (IntObj i)) = Inl InvalidDepartmentException) \<and>
     fst (Manager_init c n e y (DepartmentObj d)) = Inl InvalidDepartmentException \<and>
     (\<exists>x. fst (Executive_init c n e y (IntObj i)) = Inr x) = (1 \<le> i \<and> i \<le> 3) \<and>
     (\<forall>x. fst (Executive_init c n e y (IntObj i)) = Inr x \<longrightarrow> Role_value (role x) = i) \<and>
     (\<not> (1 \<le> i \<and> i \<le> 3) \<longrightarrow>
        fst (Executive_init c n e y (IntObj i)) = Inl InvalidRoleException) \<and>
     fst (Executive_init c n e y (RoleObj r)) = Inl InvalidRoleException"
    by blast
qed

theorem enumeration_argument_is_raw_value_witness:
  "name_check ''Ann'' = None \<and> email_check ''ann@acme-machining.com'' = None \<and>
   yearly_check (PyFloat 60000) = None \<and>
   fst (Manager_init 0 ''Ann'' ''ann@acme-machining.com'' (PyFloat 60000) (IntObj 3))
     = Inr \<lparr>id_number = 0, name = ''Ann'', email = ''ann@acme-machining.com'',
            image_path = IMAGE_PLACEHOLDER, yearly = PyFloat 60000, department = HR\<rparr> \<and>
   Department_value HR = 3 \<and>
   fst (Manager_init 0 ''Ann'' ''ann@acme-machining.com'' (PyFloat 60000) (IntObj 9))
     = Inl InvalidDepartmentException \<and>
   fst (Manager_init 0 ''Ann'' ''ann@acme-machining.com'' (PyFloat 60000) (DepartmentObj HR))
     = Inl InvalidDepartmentException \<and>
   fst (Executive_init 0 ''Ann'' ''ann@acme-machining.com'' (PyFloat 60000) (IntObj 3))
     = Inr \<lparr>id_number = 0, name = ''Ann'', email = ''ann@acme-machining.com'',
            image_path = IMAGE_PLACEHOLDER, yearly = PyFloat 60000, role = COO\<rparr> \<and>
   Role_value COO = 3 \<and>
   fst (Executive_init 0 ''Ann'' ''ann@acme-machining.com'' (PyFloat 60000) (IntObj 4))
     = Inl InvalidRoleException \<and>
   fst (Executive_init 0 ''Ann'' ''ann@acme-machining.com'' (PyFloat 60000) (RoleObj CEO))
     = Inl InvalidRoleException"
proof -
  have y: "yearly_check (PyFloat 60000) = None"
    by (simp add: yearly_check_def)
  have m: "fst (Manager_init 0 ''Ann'' ''ann@acme-machining.com'' (PyFloat 60000) (IntObj 3))
     = Inr \<lparr>id_number = 0, name = ''Ann'', email = ''ann@acme-machining.com'',
            image_path = IMAGE_PLACEHOLDER, yearly = PyFloat 60000, department = HR\<rparr>"
    by (simp add: Manager_init_eq valid_name valid_email y Department_members_def)
  have x: "fst (Executive_init 0 ''Ann'' ''ann@acme-machining.com'' (PyFloat 60000) (IntObj 3))
     = Inr \<lparr>id_number = 0, name = ''Ann'', email = ''ann@acme-machining.com'',
            image_path = IMAGE_PLACEHOLDER, yearly = PyFloat 60000, role = COO\<rparr>"
    by (simp add: Executive_init_eq valid_name valid_email y Role_members_def)
  note w = enumeration_argument_is_raw_value [of "''Ann''" "''ann@acme-machining.com''"
      "PyFloat 60000" 0 _ HR CEO]
  from valid_name valid_email y w [of 3] m x
  have in_range: "Department_value HR = 3 \<and> Role_value COO = 3 \<and>
      fst (Manager_init 0 ''Ann'' ''ann@acme-machining.com'' (PyFloat 60000) (DepartmentObj HR))
        = Inl InvalidDepartmentException \<and>
      fst (Executive_init 0 ''Ann'' ''ann@acme-machining.com'' (PyFloat 60000) (RoleObj CEO))
        = Inl InvalidRoleException"
    by simp
  from valid_name valid_email y w [of 9]
  have nine: "fst (Manager_init 0 ''Ann'' ''ann@acme-machining.com'' (PyFloat 60000) (IntObj 9))
     = Inl InvalidDepartmentException"
    by simp
  from valid_name valid_email y w [of 4]
  have four: "fst (Executive_init 0 ''Ann'' ''ann@acme-machining.com'' (PyFloat 60000) (IntObj 4))
     = Inl InvalidRoleException"
    by simp
  from valid_name valid_email y m x in_range nine four show ?thesis by blast
qed

subsection \<open>Validation of the email\<close>

lemma email_check_fails:
  "(email_check s \<noteq> None) = (s = [] \<or> \<not> sublist ''@acme-machining.com'' s)"
  by (simp add: email_check_def)

lemma email_check_cases:
  "email_check s = None \<or> email_check s = Some (ValueError ''Email cannot be blank'') \<or>
   email_check s = Some (ValueError ''Email must be from @acme-machining.com'')"
  by (simp add: email_check_def)

lemma email_setter_eq:
  "email_setter s r =
     (if s = [] then (Some (ValueError ''Email cannot be blank''), r)
      else if \<not> sublist ''@acme-machining.com'' s
        then (Some (ValueError ''Email must be from @acme-machining.com''), r)
      else (None, r\<lparr>email := s\<rparr>))"
  by (simp add: email_setter_def email_check_def)

lemma email_error_Executive:
  assumes "name_check n = None"
  shows "(fst (Executive_init c n s y a) \<in>
            {Inl (ValueError ''Email cannot be blank''),
             Inl (ValueError ''Email must be from @acme-machining.com'')})
         = (s = [] \<or> \<not> sublist ''@acme-machining.com'' s)"
  using assms email_check_cases [of s] email_check_fails [of s]
  by (auto simp add: Executive_init_eq yearly_check_def split: option.splits sum.splits)

lemma email_error_Manager:
  assumes "name_check n = None"
  shows "(fst (Manager_init c n s y a) \<in>
            {Inl (ValueError ''Email cannot be blank''),
             Inl (ValueError ''Email must be from @acme-machining.com'')})
         = (s = [] \<or> \<not> sublist ''@acme-machining.com'' s)"
  using assms email_check_cases [of s] email_check_fails [of s]
  by (auto simp add: Manager_init_eq yearly_check_def split: option.splits sum.splits)

lemma email_error_Permanent:
  assumes "name_check n = None"
  shows "(fst (Permanent_init c n s h d) \<in>
            {Inl (ValueError ''Email cannot be blank''),
             Inl (ValueError ''Email must be from @acme-machining.com'')})
         = (s = [] \<or> \<not> sublist ''@acme-machining.com'' s)"
  using assms email_check_cases [of s] email_check_fails [of s]
  by (auto simp add: Permanent_init_eq hourly_wage_check_def split: option.splits)

lemma email_error_Temporary:
  assumes "name_check n = None"
  shows "(fst (Temporary_init c n s h d) \<in>
            {Inl (ValueError ''Email cannot be blank''),
             Inl (ValueError ''Email must be from @acme-machining.com'')})
         = (s = [] \<or> \<not> sublist ''@acme-machining.com'' s)"
  using assms email_check_cases [of s] email_check_fails [of s]
  by (auto simp add: Temporary_init_eq hourly_wage_check_def split: option.splits)

text \<open>
  C7. Setting the email of an object to \<open>s\<close> raises \<^verbatim>\<open>ValueError\<close> exactly when \<open>s\<close>
  is empty or does not have \<^verbatim>\<open>@acme-machining.com\<close> as a contiguous part, at any
  position and in this very spelling; the object then keeps the email it had, and
  otherwise has the email \<open>s\<close>. A constructor of one of the four classes, given a
  name that passes its check, raises one of the two email errors under the same
  condition. The domain in capitals is refused; the domain followed by more text is
  accepted.
\<close>

theorem email_validation:
  "(fst (email_setter s r) \<noteq> None) = (s = [] \<or> \<not> sublist ''@acme-machining.com'' s) \<and>
   (fst (email_setter s r) \<noteq> None \<longrightarrow>
      snd (email_setter s r) = r \<and> email (snd (email_setter s r)) = email r) \<and>
   (fst (email_setter s r) = None \<longrightarrow> snd (email_setter s r) = r\<lparr>email := s\<rparr>) \<and>
   (name_check n = None \<longrightarrow>
      (fst (Executive_init c n s y a) \<in>
          {Inl (ValueError ''Email cannot be blank''),
           Inl (ValueError ''Email must be from @acme-machining.com'')})
        = (s = [] \<or> \<not> sublist ''@acme-machining.com'' s) \<and>
      (fst (Manager_init c n s y a) \<in>
          {Inl (ValueError ''Email cannot be blank''),
           Inl (ValueError ''Email must be from @acme-machining.com'')})
        = (s = [] \<or> \<not> sublist ''@acme-machining.com'' s) \<and>
      (fst (Permanent_init c n s h d) \<in>
          {Inl (ValueError ''Email cannot be blank''),
           Inl (ValueError ''Email must be from @acme-machining.com'')})
        = (s = [] \<or> \<not> sublist ''@acme-machining.com'' s) \<and>
      (fst (Temporary_init c n s h d) \<in>
          {Inl (ValueError ''Email cannot be blank''),
           Inl (ValueError ''Email must be from @acme-machining.com'')})
        = (s = [] \<or> \<not> sublist ''@acme-machining.com'' s)) \<and>
   \<not> sublist ''@acme-machining.com'' ''ann@ACME-MACHINING.COM'' \<and>
   sublist ''@acme-machining.com'' ''ann@acme-machining.com.example.org''"
proof -
  have a: "(fst (email_setter s r) \<noteq> None) = (s = [] \<or> \<not> sublist ''@acme-machining.com'' s)"
    by (simp add: email_setter_eq)
  have b: "fst (email_setter s r) \<noteq> None \<longrightarrow>
      snd (email_setter s r) = r \<and> email (snd (email_setter s r)) = email r"
    by (simp add: email_setter_eq)
  have c: "fst (email_setter s r) = None \<longrightarrow> snd (email_setter s r) = r\<lparr>email := s\<rparr>"
    by (simp add: email_setter_eq)
  have d: "\<not> sublist ''@acme-machining.com'' ''ann@ACME-MACHINING.COM''"
    by (simp add: sublist_code)
  have e: "sublist ''@acme-machining.com'' ''ann@acme-machining.com.example.org''"
    by (simp add: sublist_code)
  from a b c d e email_error_Executive [of n c s y a] email_error_Manager [of n c s y a]
    email_error_Permanent [of n c s h d] email_error_Temporary [of n c s h d]
  show ?thesis by blast
qed

theorem email_validation_witness:
  "fst (email_setter ''ann.acme-machining.com''
      \<lparr>id_number = 0, name = ''Ann'', email = ''ann@acme-machining.com'',
       image_path = IMAGE_PLACEHOLDER\<rparr>) \<noteq> None \<and>
   email (snd (email_setter ''ann.acme-machining.com''
      \<lparr>id_number = 0, name = ''Ann'', email = ''ann@acme-machining.com'',
       image_path = IMAGE_PLACEHOLDER\<rparr>)) = ''ann@acme-machining.com'' \<and>
   fst (email_setter ''a@acme-machining.com''
      \<lparr>id_number = 0, name = ''Ann'', email = ''ann@acme-machining.com'',
       image_path = IMAGE_PLACEHOLDER\<rparr>) = None \<and>
   snd (email_setter ''a@acme-machining.com''
      \<lparr>id_number = 0, name = ''Ann'', email = ''ann@acme-machining.com'',
       image_path = IMAGE_PLACEHOLDER\<rparr>)
     = \<lparr>id_number = 0, name = ''Ann'', email = ''a@acme-machining.com'',
        image_path = IMAGE_PLACEHOLDER\<rparr> \<and>
   name_check ''Ann'' = None \<and>
   fst (Executive_init 0 ''Ann'' ''ann.acme-machining.com'' (PyFloat 60000) (IntObj 1))
     \<in> {Inl (ValueError ''Email cannot be blank''),
         Inl (ValueError ''Email must be from @acme-machining.com'')} \<and>
   fst (Permanent_init 0 ''Ann'' '''' (PyFloat 20) ''2020-01-01'')
     \<in> {Inl (ValueError ''Email cannot be blank''),
         Inl (ValueError ''Email must be from @acme-machining.com'')}"
proof -
  have bad: "\<not> sublist ''@acme-machining.com'' ''ann.acme-machining.com''"
    by (simp add: sublist_code)
  have good: "sublist ''@acme-machining.com'' ''a@acme-machining.com''"
    by (simp add: sublist_code)
  let ?r = "\<lparr>id_number = 0, name = ''Ann'', email = ''ann@acme-machining.com'',
       image_path = IMAGE_PLACEHOLDER\<rparr>"
  have 1: "fst (email_setter ''ann.acme-machining.com'' ?r) \<noteq> None \<and>
      email (snd (email_setter ''ann.acme-machining.com'' ?r)) = ''ann@acme-machining.com''"
    using bad email_validation [of "''ann.acme-machining.com''" ?r] by simp
  have 2: "fst (email_setter ''a@acme-machining.com'' ?r) = None \<and>
      snd (email_setter ''a@acme-machining.com'' ?r)
        = \<lparr>id_number = 0, name = ''Ann'', email = ''a@acme-machining.com'',
           image_path = IMAGE_PLACEHOLDER\<rparr>"
    using good email_validation [of "''a@acme-machining.com''" ?r] by simp
  have 3: "fst (Executive_init 0 ''Ann'' ''ann.acme-machining.com'' (PyFloat 60000) (IntObj 1))
     \<in> {Inl (ValueError ''Email cannot be blank''),
         Inl (ValueError ''Email must be from @acme-machining.com'')}"
    using bad valid_name
      email_validation [of "''ann.acme-machining.com''" _ "''Ann''" 0 "PyFloat 60000" "IntObj 1"]
    by blast
  have 4: "fst (Permanent_init 0 ''Ann'' '''' (PyFloat 20) ''2020-01-01'')
     \<in> {Inl (ValueError ''Email cannot be blank''),
         Inl (ValueError ''Email must be from @acme-machining.com'')}"
    using valid_name
      email_validation [of "''''" _ "''Ann''" 0 _ _ "PyFloat 20" "''2020-01-01''"]
    by blast
  from 1 2 3 4 valid_name show ?thesis by blast
qed

subsection \<open>Identity numbers\<close>

lemma construct_all_Cons:
  "construct_all c (k # ks) =
     (fst (construct c k) # fst (construct_all (c + 1) ks), snd (construct_all (c + 1) ks))"
proof -
  obtain r c' where a: "construct c k = (r, c')"
    by (cases "construct c k")
  with snd_construct [of c k] have c': "c' = c + 1"
    by simp
  obtain rs c'' where b: "construct_all (c + 1) ks = (rs, c'')"
    by (cases "construct_all (c + 1) ks")
  show ?thesis
    by (simp add: a b c' del: construct.simps)
qed

lemma construct_all_length: "length (fst (construct_all c ks)) = length ks"
  by (induction ks arbitrary: c) (simp_all add: construct_all_Cons del: construct_all.simps(2))

lemma construct_all_counter: "snd (construct_all c ks) = c + int (length ks)"
  by (induction ks arbitrary: c) (simp_all add: construct_all_Cons del: construct_all.simps(2))

lemma construct_all_nth:
  "i < length ks \<Longrightarrow> fst (construct_all c ks) ! i = fst (construct (c + int i) (ks ! i))"
proof (induction ks arbitrary: c i)
  case Nil
  then show ?case by simp
next
  case (Cons k ks)
  show ?case
  proof (cases i)
    case 0
    then show ?thesis by (simp add: construct_all_Cons del: construct_all.simps(2))
  next
    case (Suc j)
    with Cons.prems have "j < length ks" by simp
    from Cons.IH [OF this, of "c + 1"] Suc show ?thesis
      by (simp add: construct_all_Cons add.assoc del: construct_all.simps(2) construct.simps)
  qed
qed

text \<open>
  C2, as the program has it. \<^verbatim>\<open>Employee.__init__\<close> takes the identity and increments
  the counter before it validates anything, so every construction attempt, failed or
  not, advances the counter by exactly one, and an object that is returned has the
  value of the counter at the start of its construction. In a sequence of attempts
  that starts with the counter at \<open>c\<close>, the counter ends at \<open>c\<close> plus the number of
  attempts, and the object of attempt \<open>i\<close> (counted from 0), if there is one, has the
  identity \<open>c + i\<close>: identities grow strictly, and two successive successful
  constructions differ by one plus the number of failed attempts between them.
\<close>

theorem identity_per_attempt:
  "snd (construct c k) = c + 1 \<and>
   (\<forall>x. fst (construct c k) = Inr x \<longrightarrow> employee_id x = c) \<and>
   snd (construct_all c ks) = c + int (length ks) \<and>
   length (fst (construct_all c ks)) = length ks \<and>
   (\<forall>i x. i < length ks \<and> fst (construct_all c ks) ! i = Inr x \<longrightarrow>
      employee_id x = c + int i)"
proof -
  have "\<forall>i x. i < length ks \<and> fst (construct_all c ks) ! i = Inr x \<longrightarrow>
      employee_id x = c + int i"
    using construct_all_nth [of _ ks c] id_construct by auto
  then show ?thesis
    using snd_construct [of c k] id_construct [of c k]
      construct_all_counter [of c ks] construct_all_length [of c ks]
    by blast
qed

theorem identity_per_attempt_witness:
  "fst (construct 5 (PermanentCall ''Bob'' ''bob@acme-machining.com'' (PyFloat 20) ''2020-01-01''))
     = Inr (PermanentObj \<lparr>id_number = 5, name = ''Bob'', email = ''bob@acme-machining.com'',
         image_path = IMAGE_PLACEHOLDER, hourly_wage = PyFloat 20,
         hired_date = ''2020-01-01''\<rparr>) \<and>
   employee_id (PermanentObj \<lparr>id_number = 5, name = ''Bob'',
         email = ''bob@acme-machining.com'', image_path = IMAGE_PLACEHOLDER,
         hourly_wage = PyFloat 20, hired_date = ''2020-01-01''\<rparr>) = 5 \<and>
   (1::nat) < length [PermanentCall '''' ''bob@acme-machining.com'' (PyFloat 20) ''2020-01-01'',
       PermanentCall ''Bob'' ''bob@acme-machining.com'' (PyFloat 20) ''2020-01-01''] \<and>
   fst (construct_all 5
      [PermanentCall '''' ''bob@acme-machining.com'' (PyFloat 20) ''2020-01-01'',
       PermanentCall ''Bob'' ''bob@acme-machining.com'' (PyFloat 20) ''2020-01-01'']) ! 1
     = Inr (PermanentObj \<lparr>id_number = 6, name = ''Bob'', email = ''bob@acme-machining.com'',
         image_path = IMAGE_PLACEHOLDER, hourly_wage = PyFloat 20,
         hired_date = ''2020-01-01''\<rparr>) \<and>
   employee_id (PermanentObj \<lparr>id_number = 6, name = ''Bob'',
         email = ''bob@acme-machining.com'', image_path = IMAGE_PLACEHOLDER,
         hourly_wage = PyFloat 20, hired_date = ''2020-01-01''\<rparr>) = 5 + int 1"
proof -
  have e: "email_check ''bob@acme-machining.com'' = None"
    by (simp add: email_check_def sublist_code)
  have n: "name_check ''Bob'' = None" "name_check '''' \<noteq> None"
    by (simp_all add: name_check_def)
  have h: "hourly_wage_check (PyFloat 20) = None"
    by (simp add: hourly_wage_check_def)
  have 1: "fst (construct 5
        (PermanentCall ''Bob'' ''bob@acme-machining.com'' (PyFloat 20) ''2020-01-01''))
     = Inr (PermanentObj \<lparr>id_number = 5, name = ''Bob'', email = ''bob@acme-machining.com'',
         image_path = IMAGE_PLACEHOLDER, hourly_wage = PyFloat 20,
         hired_date = ''2020-01-01''\<rparr>)"
    by (simp add: Permanent_init_eq e n h)
  have 2: "fst (construct_all 5
      [PermanentCall '''' ''bob@acme-machining.com'' (PyFloat 20) ''2020-01-01'',
       PermanentCall ''Bob'' ''bob@acme-machining.com'' (PyFloat 20) ''2020-01-01'']) ! 1
     = Inr (PermanentObj \<lparr>id_number = 6, name = ''Bob'', email = ''bob@acme-machining.com'',
         image_path = IMAGE_PLACEHOLDER, hourly_wage = PyFloat 20,
         hired_date = ''2020-01-01''\<rparr>)"
    using n by (auto simp add: Permanent_init_eq e h split: option.splits)
  from 1 2
    identity_per_attempt [of 5
      "PermanentCall ''Bob'' ''bob@acme-machining.com'' (PyFloat 20) ''2020-01-01''"
      "[PermanentCall '''' ''bob@acme-machining.com'' (PyFloat 20) ''2020-01-01'',
        PermanentCall ''Bob'' ''bob@acme-machining.com'' (PyFloat 20) ''2020-01-01'']"]
  show ?thesis by simp
qed

text \<open>
  The claim as stated fails: a construction that raises on an empty name has consumed
  the identity 0, and of three attempts of which the second fails the two objects have
  the identities 0 and 2.
\<close>

theorem failed_construction_consumes_identity:
  "Executive_init 0 '''' ''ann@acme-machining.com'' (PyFloat 60000) (IntObj 1)
     = (Inl (ValueError ''Name cannot be blank''), 1) \<and>
   snd (Executive_init 0 '''' ''ann@acme-machining.com'' (PyFloat 60000) (IntObj 1)) \<noteq> 0 \<and>
   map (map_sum id employee_id)
     (fst (construct_all 0
        [ExecutiveCall ''Ann'' ''ann@acme-machining.com'' (PyFloat 60000) (IntObj 1),
         ExecutiveCall '''' ''ann@acme-machining.com'' (PyFloat 60000) (IntObj 1),
         ExecutiveCall ''Ann'' ''ann@acme-machining.com'' (PyFloat 60000) (IntObj 1)]))
     = [Inr 0, Inl (ValueError ''Name cannot be blank''), Inr 2]"
proof -
  have n: "name_check '''' = Some (ValueError ''Name cannot be blank'')"
    by (simp add: name_check_def)
  have y: "yearly_check (PyFloat 60000) = None"
    by (simp add: yearly_check_def)
  have r: "Role_call (IntObj 1) = Inr CEO"
    by (simp add: Role_members_def)
  have m: "IntObj 1 \<in> (\<lambda>s. IntObj (Role_value s)) ` set Role_members"
    by (simp add: Role_members_values)
  show ?thesis
    by (simp add: Executive_init_eq n y r m valid_name valid_email del: Role_call.simps)
qed

subsection \<open>Loading: what the roster holds afterwards\<close>

lemma load_rows_prefix:
  "load_rows emp (st\<lparr>data := p @ data st\<rparr>) rows =
     (case load_rows emp st rows of (r, st') \<Rightarrow> (r, st'\<lparr>data := p @ data st'\<rparr>))"
proof (induction rows arbitrary: emp st)
  case Nil
  show ?case by simp
next
  case (Cons row rows)
  show ?case
  proof (cases "row_call row")
    case (Inl x)
    then show ?thesis by simp
  next
    case (Inr oc)
    show ?thesis
    proof (cases oc)
      case None
      show ?thesis
      proof (cases emp)
        case None
        with Inr \<open>oc = None\<close> show ?thesis by simp
      next
        case (Some e)
        from Cons.IH [of "Some e" "st\<lparr>data := data st @ [e]\<rparr>"]
        show ?thesis by (simp add: Inr \<open>oc = None\<close> Some)
      qed
    next
      case (Some k)
      obtain res c where k: "construct (Employee_id_number st) k = (res, c)"
        by (cases "construct (Employee_id_number st) k")
      show ?thesis
      proof (cases res)
        case (Inl x)
        then show ?thesis
          by (simp add: Inr Some k del: construct.simps)
      next
        case (Inr e)
        from Cons.IH [of "Some e" "st\<lparr>Employee_id_number := c, data := data st @ [e]\<rparr>"]
        show ?thesis
          by (simp add: \<open>row_call row = Inr oc\<close> Some k Inr del: construct.simps)
      qed
    qed
  qed
qed

lemma load_rows_from_empty:
  "load_rows emp st rows =
     (case load_rows emp (st\<lparr>data := []\<rparr>) rows of
        (r, st') \<Rightarrow> (r, st'\<lparr>data := data st @ data st'\<rparr>))"
  using load_rows_prefix [of emp "data st" "st\<lparr>data := []\<rparr>" rows] by simp

lemma load_rows_length:
  "fst (load_rows emp st rows) = None \<Longrightarrow>
     length (data (snd (load_rows emp st rows))) = length (data st) + length rows"
proof (induction rows arbitrary: emp st)
  case Nil
  show ?case by simp
next
  case (Cons row rows)
  show ?case
  proof (cases "row_call row")
    case (Inl x)
    with Cons.prems show ?thesis by simp
  next
    case (Inr oc)
    show ?thesis
    proof (cases oc)
      case None
      show ?thesis
      proof (cases emp)
        case None
        with Inr \<open>oc = None\<close> Cons.prems show ?thesis by simp
      next
        case (Some e)
        from Cons.prems Cons.IH [of "Some e" "st\<lparr>data := data st @ [e]\<rparr>"]
        show ?thesis by (simp add: Inr \<open>oc = None\<close> Some)
      qed
    next
      case (Some k)
      obtain res c where k: "construct (Employee_id_number st) k = (res, c)"
        by (cases "construct (Employee_id_number st) k")
      show ?thesis
      proof (cases res)
        case (Inl x)
        with Cons.prems show ?thesis
          by (simp add: Inr Some k del: construct.simps)
      next
        case (Inr e)
        from Cons.prems
          Cons.IH [of "Some e" "st\<lparr>Employee_id_number := c, data := data st @ [e]\<rparr>"]
        show ?thesis
          by (simp add: \<open>row_call row = Inr oc\<close> Some k Inr del: construct.simps)
      qed
    qed
  qed
qed

lemma load_rows_failure:
  "fst (load_rows emp st rows) = Some x \<Longrightarrow>
     \<exists>k. k < length rows \<and>
         fst (load_rows emp st (take k rows)) = None \<and>
         data (snd (load_rows emp st rows)) = data (snd (load_rows emp st (take k rows))) \<and>
         length (data (snd (load_rows emp st rows))) = length (data st) + k \<and>
         fst (load_rows emp st (take (Suc k) rows)) = Some x"
proof (induction rows arbitrary: emp st)
  case Nil
  then show ?case by simp
next
  case (Cons row rows)
  let ?goal = "\<lambda>k. k < length (row # rows) \<and>
         fst (load_rows emp st (take k (row # rows))) = None \<and>
         data (snd (load_rows emp st (row # rows)))
           = data (snd (load_rows emp st (take k (row # rows)))) \<and>
         length (data (snd (load_rows emp st (row # rows)))) = length (data st) + k \<and>
         fst (load_rows emp st (take (Suc k) (row # rows))) = Some x"
  show ?case
  proof (cases "row_call row")
    case (Inl y)
    with Cons.prems have "?goal 0" by simp
    then show ?thesis by blast
  next
    case (Inr oc)
    show ?thesis
    proof (cases oc)
      case None
      show ?thesis
      proof (cases emp)
        case None
        with Inr \<open>oc = None\<close> Cons.prems have "?goal 0" by simp
        then show ?thesis by blast
      next
        case (Some e)
        let ?st = "st\<lparr>data := data st @ [e]\<rparr>"
        have step: "\<And>rs. load_rows emp st (row # rs) = load_rows (Some e) ?st rs"
          by (simp add: Inr \<open>oc = None\<close> Some)
        from Cons.prems have "fst (load_rows (Some e) ?st rows) = Some x"
          by (simp only: step)
        from Cons.IH [OF this] obtain k where "k < length rows"
          "fst (load_rows (Some e) ?st (take k rows)) = None"
          "data (snd (load_rows (Some e) ?st rows))
             = data (snd (load_rows (Some e) ?st (take k rows)))"
          "length (data (snd (load_rows (Some e) ?st rows))) = length (data ?st) + k"
          "fst (load_rows (Some e) ?st (take (Suc k) rows)) = Some x"
          by blast
        then have "?goal (Suc k)"
          by (simp add: step del: load_rows.simps)
        then show ?thesis by blast
      qed
    next
      case (Some c)
      obtain res n where k: "construct (Employee_id_number st) c = (res, n)"
        by (cases "construct (Employee_id_number st) c")
      show ?thesis
      proof (cases res)
        case (Inl y)
        with Cons.prems have "?goal 0"
          by (simp add: Inr Some k del: construct.simps)
        then show ?thesis by blast
      next
        case (Inr e)
        let ?st = "st\<lparr>Employee_id_number := n, data := data st @ [e]\<rparr>"
        have step: "\<And>rs. load_rows emp st (row # rs) = load_rows (Some e) ?st rs"
          by (simp add: \<open>row_call row = Inr oc\<close> Some k Inr del: construct.simps)
        from Cons.prems have "fst (load_rows (Some e) ?st rows) = Some x"
          by (simp only: step)
        from Cons.IH [OF this] obtain j where "j < length rows"
          "fst (load_rows (Some e) ?st (take j rows)) = None"
          "data (snd (load_rows (Some e) ?st rows))
             = data (snd (load_rows (Some e) ?st (take j rows)))"
          "length (data (snd (load_rows (Some e) ?st rows))) = length (data ?st) + j"
          "fst (load_rows (Some e) ?st (take (Suc j) rows)) = Some x"
          by blast
        then have "?goal (Suc j)"
          by (simp add: step del: load_rows.simps)
        then show ?thesis by blast
      qed
    qed
  qed
qed

subsection \<open>Rows and files used as examples\<close>

lemmas parse_defs = py_float_def py_int_def strip_def whitespace_def floatnumber_def
  mantissa_def exponent_def digit_def digits_value_def lower_def Let_def

lemma float_20: "py_float ''20.0'' = Inr (PyFloat 20)"
  by (simp add: parse_defs)

lemma row_Bob:
  "row_call [''Permanent'', ''Bob'', ''bob@acme-machining.com'', ''x'', ''20.0'', ''2020-01-01'']
     = Inr (Some (PermanentCall ''Bob'' ''bob@acme-machining.com'' (PyFloat 20) ''2020-01-01''))"
  by (simp add: row_call_def and_then_def subscript_def float_20)

lemma row_Eve_five_fields:
  "row_call [''Permanent'', ''Eve'', ''eve@acme-machining.com'', ''x'', ''20.0'']
     = Inl IndexError"
  by (simp add: row_call_def and_then_def subscript_def float_20)

lemma row_Intern:
  "row_call [''Intern'', ''Bob'', ''bob@acme-machining.com'', ''x'', ''20.0'', ''2020-01-01'']
     = Inr None"
  by (simp add: row_call_def and_then_def subscript_def)

lemma construct_Bob:
  "construct c (PermanentCall ''Bob'' ''bob@acme-machining.com'' (PyFloat 20) ''2020-01-01'')
     = (Inr (PermanentObj \<lparr>id_number = c, name = ''Bob'', email = ''bob@acme-machining.com'',
          image_path = ''./images/placeholder.png'', hourly_wage = PyFloat 20,
          hired_date = ''2020-01-01''\<rparr>), c + 1)"
  by (simp add: Permanent_init_eq name_check_def email_check_def sublist_code
      hourly_wage_check_def IMAGE_PLACEHOLDER_def)

lemma file_Bob_Eve:
  "csv_reader (universal_newlines
     (''Permanent,Bob,bob@acme-machining.com,x,20.0,2020-01-01'' @ [newline] @
      ''Permanent,Eve,eve@acme-machining.com,x,20.0'' @ [newline]))
   = [[''Permanent'', ''Bob'', ''bob@acme-machining.com'', ''x'', ''20.0'', ''2020-01-01''],
      [''Permanent'', ''Eve'', ''eve@acme-machining.com'', ''x'', ''20.0'']]"
  by code_simp

lemma load_Bob_Eve:
  "load_file
     (''Permanent,Bob,bob@acme-machining.com,x,20.0,2020-01-01'' @ [newline] @
      ''Permanent,Eve,eve@acme-machining.com,x,20.0'' @ [newline])
     \<lparr>Employee_id_number = 0, data = []\<rparr>
   = (Some IndexError,
      \<lparr>Employee_id_number = 1,
       data = [PermanentObj \<lparr>id_number = 0, name = ''Bob'', email = ''bob@acme-machining.com'',
                 image_path = ''./images/placeholder.png'', hourly_wage = PyFloat 20,
                 hired_date = ''2020-01-01''\<rparr>]\<rparr>)"
  unfolding load_file_def file_Bob_Eve
  by (simp add: row_Bob row_Eve_five_fields construct_Bob del: construct.simps)

text \<open>
  C3, as the program has it. \<^verbatim>\<open>load_file\<close> appends each object as soon as its row is
  read and has no step that takes objects back. When a row raises, the load stops
  there: the rows before it have loaded without an exception, and the roster holds
  its earlier records, in place, followed by one record for each of those rows. Only
  when the first row raises is the roster as it was before the load.
\<close>

theorem failed_load_keeps_earlier_rows:
  "take (length (data st)) (data (snd (load_file content st))) = data st \<and>
   (fst (load_file content st) = Some x \<longrightarrow>
     (\<exists>k. k < length (csv_reader (universal_newlines content)) \<and>
        fst (load_rows None st (take k (csv_reader (universal_newlines content)))) = None \<and>
        data (snd (load_file content st))
          = data (snd (load_rows None st (take k (csv_reader (universal_newlines content))))) \<and>
        length (data (snd (load_file content st))) = length (data st) + k \<and>
        fst (load_rows None st (take (Suc k) (csv_reader (universal_newlines content))))
          = Some x))"
proof -
  have "take (length (data st)) (data (snd (load_file content st))) = data st"
    unfolding load_file_def
    by (subst load_rows_from_empty) (simp split: prod.splits)
  then show ?thesis
    using load_rows_failure [of None st "csv_reader (universal_newlines content)" x]
    unfolding load_file_def by blast
qed

theorem failed_load_keeps_earlier_rows_witness:
  "fst (load_file
      (''Permanent,Bob,bob@acme-machining.com,x,20.0,2020-01-01'' @ [newline] @
       ''Permanent,Eve,eve@acme-machining.com,x,20.0'' @ [newline])
      \<lparr>Employee_id_number = 0, data = []\<rparr>) = Some IndexError \<and>
   (\<exists>k. length (data (snd (load_file
      (''Permanent,Bob,bob@acme-machining.com,x,20.0,2020-01-01'' @ [newline] @
       ''Permanent,Eve,eve@acme-machining.com,x,20.0'' @ [newline])
      \<lparr>Employee_id_number = 0, data = []\<rparr>))) = length ([] :: employee list) + k)"
proof -
  have f: "fst (load_file
      (''Permanent,Bob,bob@acme-machining.com,x,20.0,2020-01-01'' @ [newline] @
       ''Permanent,Eve,eve@acme-machining.com,x,20.0'' @ [newline])
      \<lparr>Employee_id_number = 0, data = []\<rparr>) = Some IndexError"
    using load_Bob_Eve by simp
  from f failed_load_keeps_earlier_rows
    [of "\<lparr>Employee_id_number = 0, data = []\<rparr>"
      "''Permanent,Bob,bob@acme-machining.com,x,20.0,2020-01-01'' @ [newline] @
       ''Permanent,Eve,eve@acme-machining.com,x,20.0'' @ [newline]" IndexError]
  obtain k where "length (data (snd (load_file
      (''Permanent,Bob,bob@acme-machining.com,x,20.0,2020-01-01'' @ [newline] @
       ''Permanent,Eve,eve@acme-machining.com,x,20.0'' @ [newline])
      \<lparr>Employee_id_number = 0, data = []\<rparr>)))
     = length (data \<lparr>Employee_id_number = 0, data = []\<rparr>) + k"
    by blast
  with f show ?thesis by auto
qed

text \<open>
  The claim as stated fails: the second line of this file has five fields, the load
  raises \<^verbatim>\<open>IndexError\<close> there, and the roster, empty before, holds the record of the
  first line.
\<close>

theorem failed_load_is_not_rolled_back:
  "MainWindow_init
     (''Permanent,Bob,bob@acme-machining.com,x,20.0,2020-01-01'' @ [newline] @
      ''Permanent,Eve,eve@acme-machining.com,x,20.0'' @ [newline]) 0
   = (Some IndexError,
      \<lparr>Employee_id_number = 1,
       data = [PermanentObj \<lparr>id_number = 0, name = ''Bob'', email = ''bob@acme-machining.com'',
                 image_path = ''./images/placeholder.png'', hourly_wage = PyFloat 20,
                 hired_date = ''2020-01-01''\<rparr>]\<rparr>) \<and>
   data (snd (MainWindow_init
     (''Permanent,Bob,bob@acme-machining.com,x,20.0,2020-01-01'' @ [newline] @
      ''Permanent,Eve,eve@acme-machining.com,x,20.0'' @ [newline]) 0)) \<noteq> []"
  using load_Bob_Eve by (simp add: MainWindow_init_def)

subsection \<open>Loading appends\<close>

lemma construct_without_id:
  "map_sum (\<lambda>x. x) without_id (fst (construct c k)) = map_sum (\<lambda>x. x) without_id (fst (construct c' k))"
  by (cases k) (simp_all add: init_eqs split: option.splits sum.splits)

lemma load_rows_grow:
  "load_rows emp \<lparr>Employee_id_number = c, data = d\<rparr> rows =
     (fst (load_rows emp \<lparr>Employee_id_number = c, data = []\<rparr> rows),
      (snd (load_rows emp \<lparr>Employee_id_number = c, data = []\<rparr> rows))
        \<lparr>data := d @ data (snd (load_rows emp \<lparr>Employee_id_number = c, data = []\<rparr> rows))\<rparr>)"
  using load_rows_from_empty [of emp "\<lparr>Employee_id_number = c, data = d\<rparr>" rows]
  by (simp split: prod.splits)

lemma load_rows_Cons_cases:
  "load_rows emp \<lparr>Employee_id_number = c, data = []\<rparr> (row # rows) =
     (case row_call row of
        Inl x \<Rightarrow> (Some x, \<lparr>Employee_id_number = c, data = []\<rparr>)
      | Inr None \<Rightarrow>
          (case emp of
             None \<Rightarrow> (Some UnboundLocalError, \<lparr>Employee_id_number = c, data = []\<rparr>)
           | Some e \<Rightarrow>
               (fst (load_rows (Some e) \<lparr>Employee_id_number = c, data = []\<rparr> rows),
                (snd (load_rows (Some e) \<lparr>Employee_id_number = c, data = []\<rparr> rows))
                  \<lparr>data := e #
                     data (snd (load_rows (Some e) \<lparr>Employee_id_number = c, data = []\<rparr> rows))\<rparr>))
      | Inr (Some k) \<Rightarrow>
          (case fst (construct c k) of
             Inl x \<Rightarrow> (Some x, \<lparr>Employee_id_number = c + 1, data = []\<rparr>)
           | Inr e \<Rightarrow>
               (fst (load_rows (Some e) \<lparr>Employee_id_number = c + 1, data = []\<rparr> rows),
                (snd (load_rows (Some e) \<lparr>Employee_id_number = c + 1, data = []\<rparr> rows))
                  \<lparr>data := e #
                     data (snd (load_rows (Some e)
                       \<lparr>Employee_id_number = c + 1, data = []\<rparr> rows))\<rparr>)))"
proof -
  have k: "\<And>k. construct c k = (fst (construct c k), c + 1)"
    using snd_construct [of c] by (simp add: prod_eq_iff)
  have g: "\<And>e c. load_rows (Some e) \<lparr>Employee_id_number = c, data = [e]\<rparr> rows =
     (fst (load_rows (Some e) \<lparr>Employee_id_number = c, data = []\<rparr> rows),
      (snd (load_rows (Some e) \<lparr>Employee_id_number = c, data = []\<rparr> rows))
        \<lparr>data := e #
           data (snd (load_rows (Some e) \<lparr>Employee_id_number = c, data = []\<rparr> rows))\<rparr>)"
    using load_rows_grow [of _ _ "[_]" rows] by simp
  show ?thesis
  proof (cases "row_call row")
    case (Inl x)
    then show ?thesis by simp
  next
    case (Inr oc)
    show ?thesis
    proof (cases oc)
      case None
      with Inr g show ?thesis by (simp split: option.splits)
    next
      case (Some kk)
      show ?thesis
      proof (cases "fst (construct c kk)")
        case (Inl x)
        with k [of kk] have "construct c kk = (Inl x, c + 1)" by simp
        with Inr Some Inl show ?thesis by (simp del: construct.simps)
      next
        case r: (Inr e)
        with k [of kk] have "construct c kk = (Inr e, c + 1)" by simp
        with Inr Some r g [of e "c + 1"] show ?thesis by (simp del: construct.simps)
      qed
    qed
  qed
qed

lemma load_rows_up_to_id:
  "map_option without_id emp = map_option without_id emp' \<Longrightarrow>
   fst (load_rows emp \<lparr>Employee_id_number = c, data = []\<rparr> rows)
     = fst (load_rows emp' \<lparr>Employee_id_number = c', data = []\<rparr> rows) \<and>
   map without_id (data (snd (load_rows emp \<lparr>Employee_id_number = c, data = []\<rparr> rows)))
     = map without_id (data (snd (load_rows emp' \<lparr>Employee_id_number = c', data = []\<rparr> rows)))"
proof (induction rows arbitrary: emp emp' c c')
  case Nil
  show ?case by simp
next
  case (Cons row rows)
  show ?case
  proof (cases "row_call row")
    case (Inl x)
    then show ?thesis by (simp add: load_rows_Cons_cases del: load_rows.simps)
  next
    case (Inr oc)
    show ?thesis
    proof (cases oc)
      case None
      show ?thesis
      proof (cases emp)
        case None
        with Cons.prems have "emp' = None" by simp
        with None Inr \<open>oc = None\<close> show ?thesis
          by (simp add: load_rows_Cons_cases del: load_rows.simps)
      next
        case (Some e)
        with Cons.prems obtain e' where e': "emp' = Some e'" "without_id e = without_id e'"
          by (cases emp') auto
        from Cons.IH [of "Some e" "Some e'" c c'] e' Some Inr \<open>oc = None\<close>
        show ?thesis
          by (simp add: load_rows_Cons_cases del: load_rows.simps)
      qed
    next
      case (Some k)
      show ?thesis
      proof (cases "fst (construct c k)")
        case (Inl x)
        with construct_without_id [of c k c'] have "fst (construct c' k) = Inl x"
          by (cases "fst (construct c' k)") simp_all
        with Inl Inr Some show ?thesis
          by (simp add: load_rows_Cons_cases del: load_rows.simps construct.simps)
      next
        case r: (Inr e)
        with construct_without_id [of c k c'] obtain e' where
          e': "fst (construct c' k) = Inr e'" "without_id e = without_id e'"
          by (cases "fst (construct c' k)") simp_all
        from Cons.IH [of "Some e" "Some e'" "c + 1" "c' + 1"] e' r Inr Some
        show ?thesis
          by (simp add: load_rows_Cons_cases del: load_rows.simps construct.simps)
      qed
    qed
  qed
qed

lemma loaded_nth:
  "fst (load_rows emp \<lparr>Employee_id_number = c, data = []\<rparr> rows) = None \<Longrightarrow>
   i < length rows \<Longrightarrow> row_call (rows ! i) = Inr (Some k) \<Longrightarrow>
   map_sum (\<lambda>x. x) without_id (fst (construct 0 k))
     = Inr (without_id (data (snd (load_rows emp \<lparr>Employee_id_number = c, data = []\<rparr> rows)) ! i))"
proof (induction rows arbitrary: emp c i)
  case Nil
  then show ?case by simp
next
  case (Cons row rows)
  show ?case
  proof (cases i)
    case 0
    with Cons.prems have rc: "row_call row = Inr (Some k)" by simp
    with Cons.prems(1) obtain e where e: "fst (construct c k) = Inr e"
      by (cases "fst (construct c k)")
        (simp_all add: load_rows_Cons_cases del: load_rows.simps construct.simps)
    with construct_without_id [of 0 k c]
    have "map_sum (\<lambda>x. x) without_id (fst (construct 0 k)) = Inr (without_id e)" by simp
    with rc e 0 show ?thesis
      by (simp add: load_rows_Cons_cases del: load_rows.simps construct.simps)
  next
    case (Suc j)
    with Cons.prems have j: "j < length rows" "row_call (rows ! j) = Inr (Some k)"
      by simp_all
    show ?thesis
    proof (cases "row_call row")
      case (Inl x)
      with Cons.prems(1) show ?thesis
        by (simp add: load_rows_Cons_cases del: load_rows.simps)
    next
      case (Inr oc)
      show ?thesis
      proof (cases oc)
        case None
        show ?thesis
        proof (cases emp)
          case None
          with Cons.prems(1) Inr \<open>oc = None\<close> show ?thesis
            by (simp add: load_rows_Cons_cases del: load_rows.simps)
        next
          case (Some e)
          with Cons.prems(1) Inr \<open>oc = None\<close>
          have "fst (load_rows (Some e) \<lparr>Employee_id_number = c, data = []\<rparr> rows) = None"
            by (simp add: load_rows_Cons_cases del: load_rows.simps)
          from Cons.IH [OF this j] Some Inr \<open>oc = None\<close> Suc show ?thesis
            by (simp add: load_rows_Cons_cases del: load_rows.simps)
        qed
      next
        case (Some kk)
        show ?thesis
        proof (cases "fst (construct c kk)")
          case (Inl x)
          with Cons.prems(1) Inr Some show ?thesis
            by (simp add: load_rows_Cons_cases del: load_rows.simps construct.simps)
        next
          case r: (Inr e)
          with Cons.prems(1) Inr Some
          have "fst (load_rows (Some e) \<lparr>Employee_id_number = c + 1, data = []\<rparr> rows) = None"
            by (simp add: load_rows_Cons_cases del: load_rows.simps construct.simps)
          from Cons.IH [OF this j] r Inr Some Suc show ?thesis
            by (simp add: load_rows_Cons_cases del: load_rows.simps construct.simps)
        qed
      qed
    qed
  qed
qed

lemma file_Bob:
  "csv_reader (universal_newlines
     (''Permanent,Bob,bob@acme-machining.com,x,20.0,2020-01-01'' @ [newline]))
   = [[''Permanent'', ''Bob'', ''bob@acme-machining.com'', ''x'', ''20.0'', ''2020-01-01'']]"
  by code_simp

lemma load_Bob:
  "load_file (''Permanent,Bob,bob@acme-machining.com,x,20.0,2020-01-01'' @ [newline])
     \<lparr>Employee_id_number = c, data = d\<rparr>
   = (None,
      \<lparr>Employee_id_number = c + 1,
       data = d @
         [PermanentObj \<lparr>id_number = c, name = ''Bob'', email = ''bob@acme-machining.com'',
            image_path = ''./images/placeholder.png'', hourly_wage = PyFloat 20,
            hired_date = ''2020-01-01''\<rparr>]\<rparr>)"
  unfolding load_file_def file_Bob
  by (simp add: row_Bob construct_Bob del: construct.simps)

text \<open>
  C10. \<^verbatim>\<open>load_file\<close> never clears \<^verbatim>\<open>self._data\<close>: its outcome on a roster is its
  outcome on the empty roster (with the same counter), and the roster afterwards is
  the earlier records followed by the records of that load. A load without an
  exception adds one record for each row of the file, in the order of the rows: the
  record at position \<open>i\<close> after the earlier ones is, up to its identity number, the
  object of the constructor call of row \<open>i\<close>. Loading the same file once more succeeds
  again and adds the same records once more, as new objects with new identity numbers.
\<close>

theorem load_appends_to_roster:
  "fst (load_file content st) = fst (load_file content (st\<lparr>data := []\<rparr>)) \<and>
   data (snd (load_file content st))
     = data st @ data (snd (load_file content (st\<lparr>data := []\<rparr>))) \<and>
   (fst (load_file content st) = None \<longrightarrow>
      length (data (snd (load_file content st)))
        = length (data st) + length (csv_reader (universal_newlines content)) \<and>
      (\<forall>i k. i < length (csv_reader (universal_newlines content)) \<and>
           row_call (csv_reader (universal_newlines content) ! i) = Inr (Some k) \<longrightarrow>
           map_sum (\<lambda>x. x) without_id (fst (construct 0 k))
             = Inr (without_id (data (snd (load_file content st)) ! (length (data st) + i)))) \<and>
      fst (load_file content (snd (load_file content st))) = None \<and>
      map without_id (data (snd (load_file content (snd (load_file content st)))))
        = map without_id (data st)
          @ map without_id (data (snd (load_file content (st\<lparr>data := []\<rparr>))))
          @ map without_id (data (snd (load_file content (st\<lparr>data := []\<rparr>)))))"
proof -
  obtain c d where st: "st = \<lparr>Employee_id_number = c, data = d\<rparr>"
    by (cases st) simp
  define rows where "rows = csv_reader (universal_newlines content)"
  define L where "L = (\<lambda>n. load_rows None \<lparr>Employee_id_number = n, data = []\<rparr> rows)"
  obtain c1 new where L: "snd (L c) = \<lparr>Employee_id_number = c1, data = new\<rparr>"
    by (cases "snd (L c)") simp
  have one: "load_file content st = (fst (L c), \<lparr>Employee_id_number = c1, data = d @ new\<rparr>)"
    unfolding load_file_def st rows_def [symmetric]
    using load_rows_grow [of None c d rows] L by (simp add: L_def)
  have empty: "load_file content (st\<lparr>data := []\<rparr>) = L c"
    by (simp add: load_file_def st rows_def L_def)
  have a: "fst (load_file content st) = fst (load_file content (st\<lparr>data := []\<rparr>))"
    using one empty by (simp add: st)
  have b: "data (snd (load_file content st))
     = data st @ data (snd (load_file content (st\<lparr>data := []\<rparr>)))"
    using one empty L by (simp add: st)
  have c: "length (data (snd (load_file content st)))
        = length (data st) + length (csv_reader (universal_newlines content))"
    if "fst (load_file content st) = None"
    using that load_rows_length [of None st rows]
    by (simp add: load_file_def rows_def)
  have d: "map_sum (\<lambda>x. x) without_id (fst (construct 0 k))
             = Inr (without_id (data (snd (load_file content st)) ! (length (data st) + i)))"
    if "fst (load_file content st) = None" "i < length rows"
      "row_call (rows ! i) = Inr (Some k)" for i k
  proof -
    have Lc: "load_rows None \<lparr>Employee_id_number = c, data = []\<rparr> rows = L c"
      by (simp add: L_def)
    from that(1) have "fst (L c) = None" by (simp add: one)
    from loaded_nth [OF this [unfolded L_def] that(2,3)]
    show ?thesis using one L by (simp add: st Lc nth_append)
  qed
  have two: "load_file content (snd (load_file content st))
     = (fst (L c1), (snd (L c1))\<lparr>data := (d @ new) @ data (snd (L c1))\<rparr>)"
  proof -
    have "snd (load_file content st) = \<lparr>Employee_id_number = c1, data = d @ new\<rparr>"
      by (simp add: one)
    then have "load_file content (snd (load_file content st))
        = load_file content \<lparr>Employee_id_number = c1, data = d @ new\<rparr>"
      by (simp only:)
    also have "\<dots> = load_rows None \<lparr>Employee_id_number = c1, data = d @ new\<rparr> rows"
      by (simp add: load_file_def rows_def)
    also have "\<dots> = (fst (L c1), (snd (L c1))\<lparr>data := (d @ new) @ data (snd (L c1))\<rparr>)"
      using load_rows_grow [of None c1 "d @ new" rows] by (simp add: L_def)
    finally show ?thesis .
  qed
  have same: "fst (L c1) = fst (L c) \<and>
      map without_id (data (snd (L c1))) = map without_id (data (snd (L c)))"
    unfolding L_def using load_rows_up_to_id [of None None c1 rows c] by simp
  have e: "fst (load_file content (snd (load_file content st))) = None"
    if "fst (load_file content st) = None"
    using that same two one by (simp add: st)
  have f: "map without_id (data (snd (load_file content (snd (load_file content st)))))
        = map without_id (data st)
          @ map without_id (data (snd (load_file content (st\<lparr>data := []\<rparr>))))
          @ map without_id (data (snd (load_file content (st\<lparr>data := []\<rparr>))))"
    using same two empty L by (simp add: st)
  from a b c d e f show ?thesis
    unfolding rows_def by blast
qed

theorem load_appends_to_roster_witness:
  "fst (load_file (''Permanent,Bob,bob@acme-machining.com,x,20.0,2020-01-01'' @ [newline])
      \<lparr>Employee_id_number = 1,
       data = [PermanentObj \<lparr>id_number = 0, name = ''Bob'',
          email = ''bob@acme-machining.com'', image_path = ''./images/placeholder.png'',
          hourly_wage = PyFloat 20, hired_date = ''2020-01-01''\<rparr>]\<rparr>) = None \<and>
   data (snd (load_file (''Permanent,Bob,bob@acme-machining.com,x,20.0,2020-01-01'' @ [newline])
      \<lparr>Employee_id_number = 1,
       data = [PermanentObj \<lparr>id_number = 0, name = ''Bob'',
          email = ''bob@acme-machining.com'', image_path = ''./images/placeholder.png'',
          hourly_wage = PyFloat 20, hired_date = ''2020-01-01''\<rparr>]\<rparr>))
     = [PermanentObj \<lparr>id_number = 0, name = ''Bob'',
          email = ''bob@acme-machining.com'', image_path = ''./images/placeholder.png'',
          hourly_wage = PyFloat 20, hired_date = ''2020-01-01''\<rparr>,
        PermanentObj \<lparr>id_number = 1, name = ''Bob'',
          email = ''bob@acme-machining.com'', image_path = ''./images/placeholder.png'',
          hourly_wage = PyFloat 20, hired_date = ''2020-01-01''\<rparr>] \<and>
   length (data (snd (load_file
      (''Permanent,Bob,bob@acme-machining.com,x,20.0,2020-01-01'' @ [newline])
      \<lparr>Employee_id_number = 1,
       data = [PermanentObj \<lparr>id_number = 0, name = ''Bob'',
          email = ''bob@acme-machining.com'', image_path = ''./images/placeholder.png'',
          hourly_wage = PyFloat 20, hired_date = ''2020-01-01''\<rparr>]\<rparr>)))
     = 1 + length (csv_reader (universal_newlines
         (''Permanent,Bob,bob@acme-machining.com,x,20.0,2020-01-01'' @ [newline]))) \<and>
   (0::nat) < length (csv_reader (universal_newlines
         (''Permanent,Bob,bob@acme-machining.com,x,20.0,2020-01-01'' @ [newline]))) \<and>
   row_call (csv_reader (universal_newlines
         (''Permanent,Bob,bob@acme-machining.com,x,20.0,2020-01-01'' @ [newline])) ! 0)
     = Inr (Some (PermanentCall ''Bob'' ''bob@acme-machining.com'' (PyFloat 20) ''2020-01-01'')) \<and>
   map_sum (\<lambda>x. x) without_id
      (fst (construct 0
        (PermanentCall ''Bob'' ''bob@acme-machining.com'' (PyFloat 20) ''2020-01-01'')))
     = Inr (without_id (data (snd (load_file
        (''Permanent,Bob,bob@acme-machining.com,x,20.0,2020-01-01'' @ [newline])
        \<lparr>Employee_id_number = 1,
         data = [PermanentObj \<lparr>id_number = 0, name = ''Bob'',
            email = ''bob@acme-machining.com'', image_path = ''./images/placeholder.png'',
            hourly_wage = PyFloat 20, hired_date = ''2020-01-01''\<rparr>]\<rparr>)) ! (1 + 0))) \<and>
   fst (load_file (''Permanent,Bob,bob@acme-machining.com,x,20.0,2020-01-01'' @ [newline])
      (snd (load_file (''Permanent,Bob,bob@acme-machining.com,x,20.0,2020-01-01'' @ [newline])
        \<lparr>Employee_id_number = 1,
         data = [PermanentObj \<lparr>id_number = 0, name = ''Bob'',
            email = ''bob@acme-machining.com'', image_path = ''./images/placeholder.png'',
            hourly_wage = PyFloat 20, hired_date = ''2020-01-01''\<rparr>]\<rparr>))) = None"
proof -
  let ?content = "''Permanent,Bob,bob@acme-machining.com,x,20.0,2020-01-01'' @ [newline]"
  let ?bob = "PermanentObj \<lparr>id_number = 0, name = ''Bob'',
          email = ''bob@acme-machining.com'', image_path = ''./images/placeholder.png'',
          hourly_wage = PyFloat 20, hired_date = ''2020-01-01''\<rparr>"
  let ?st = "\<lparr>Employee_id_number = 1, data = [?bob]\<rparr>"
  have ok: "fst (load_file ?content ?st) = None"
    by (simp only: load_Bob fst_conv)
  have dat: "data (snd (load_file ?content ?st))
     = [?bob, PermanentObj \<lparr>id_number = 1, name = ''Bob'',
          email = ''bob@acme-machining.com'', image_path = ''./images/placeholder.png'',
          hourly_wage = PyFloat 20, hired_date = ''2020-01-01''\<rparr>]"
    by (simp only: load_Bob) simp
  have row: "(0::nat) < length (csv_reader (universal_newlines ?content))"
    "row_call (csv_reader (universal_newlines ?content) ! 0)
     = Inr (Some (PermanentCall ''Bob'' ''bob@acme-machining.com'' (PyFloat 20) ''2020-01-01''))"
    by (simp_all only: file_Bob row_Bob nth_Cons_0 list.size)
  from load_appends_to_roster [of ?content ?st] ok
  have "length (data (snd (load_file ?content ?st)))
     = length (data ?st) + length (csv_reader (universal_newlines ?content))"
    by blast
  then have len: "length (data (snd (load_file ?content ?st)))
     = 1 + length (csv_reader (universal_newlines ?content))"
    by simp
  from load_appends_to_roster [of ?content ?st] ok row
  have nth: "map_sum (\<lambda>x. x) without_id
      (fst (construct 0
        (PermanentCall ''Bob'' ''bob@acme-machining.com'' (PyFloat 20) ''2020-01-01'')))
     = Inr (without_id (data (snd (load_file ?content ?st)) ! (length (data ?st) + 0)))"
    by blast
  then have nth': "map_sum (\<lambda>x. x) without_id
      (fst (construct 0
        (PermanentCall ''Bob'' ''bob@acme-machining.com'' (PyFloat 20) ''2020-01-01'')))
     = Inr (without_id (data (snd (load_file ?content ?st)) ! (1 + 0)))"
    by simp
  from load_appends_to_roster [of ?content ?st] ok
  have again: "fst (load_file ?content (snd (load_file ?content ?st))) = None"
    by blast
  from ok dat len row nth' again show ?thesis by blast
qed

subsection \<open>Rows that \<^verbatim>\<open>load_file\<close> does not reject\<close>

lemma file_Intern:
  "csv_reader (universal_newlines
     (''Intern,Bob,bob@acme-machining.com,x,20.0,2020-01-01'' @ [newline]))
   = [[''Intern'', ''Bob'', ''bob@acme-machining.com'', ''x'', ''20.0'', ''2020-01-01'']]"
  by code_simp

lemma file_Bob_Intern:
  "csv_reader (universal_newlines
     (''Permanent,Bob,bob@acme-machining.com,x,20.0,2020-01-01'' @ [newline] @
      ''Intern,Bob,bob@acme-machining.com,x,20.0,2020-01-01'' @ [newline]))
   = [[''Permanent'', ''Bob'', ''bob@acme-machining.com'', ''x'', ''20.0'', ''2020-01-01''],
      [''Intern'', ''Bob'', ''bob@acme-machining.com'', ''x'', ''20.0'', ''2020-01-01'']]"
  by code_simp

lemma file_Manager_eight_fields:
  "csv_reader (universal_newlines
     (''Manager,Bob,bob@acme-machining.com,x,60000,2,extra,more'' @ [newline]))
   = [[''Manager'', ''Bob'', ''bob@acme-machining.com'', ''x'', ''60000'', ''2'', ''extra'',
       ''more'']]"
  by code_simp

lemma float_60000: "py_float ''60000'' = Inr (PyFloat 60000)"
  by (simp add: parse_defs)

lemma int_2: "py_int ''2'' = Inr 2"
  by (simp add: parse_defs)

lemma row_Manager_eight_fields:
  "row_call [''Manager'', ''Bob'', ''bob@acme-machining.com'', ''x'', ''60000'', ''2'', ''extra'',
       ''more'']
     = Inr (Some (ManagerCall ''Bob'' ''bob@acme-machining.com'' (PyFloat 60000) (IntObj 2)))"
  by (simp add: row_call_def and_then_def subscript_def float_60000 int_2)

lemma construct_Manager_Bob:
  "construct c (ManagerCall ''Bob'' ''bob@acme-machining.com'' (PyFloat 60000) (IntObj 2))
     = (Inr (ManagerObj \<lparr>id_number = c, name = ''Bob'', email = ''bob@acme-machining.com'',
          image_path = ''./images/placeholder.png'', yearly = PyFloat 60000,
          department = FINANCE\<rparr>), c + 1)"
  by (simp add: Manager_init_eq name_check_def email_check_def sublist_code
      yearly_check_def IMAGE_PLACEHOLDER_def Department_members_def)

text \<open>
  C4. The program has no malformed-record failure. A first line with an unknown tag
  ends the load with \<^verbatim>\<open>UnboundLocalError\<close>, raised by the read of the local variable
  \<^verbatim>\<open>employee\<close> that no branch has assigned; the same line after a good line raises
  nothing, and the object of the line before it is appended a second time; a line
  with eight fields is loaded as if it had six.
\<close>

theorem unknown_tag_and_extra_fields_not_rejected:
  "MainWindow_init (''Intern,Bob,bob@acme-machining.com,x,20.0,2020-01-01'' @ [newline]) 0
     = (Some UnboundLocalError, \<lparr>Employee_id_number = 0, data = []\<rparr>) \<and>
   MainWindow_init
     (''Permanent,Bob,bob@acme-machining.com,x,20.0,2020-01-01'' @ [newline] @
      ''Intern,Bob,bob@acme-machining.com,x,20.0,2020-01-01'' @ [newline]) 0
     = (None,
        \<lparr>Employee_id_number = 1,
         data = [PermanentObj \<lparr>id_number = 0, name = ''Bob'',
                   email = ''bob@acme-machining.com'',
                   image_path = ''./images/placeholder.png'', hourly_wage = PyFloat 20,
                   hired_date = ''2020-01-01''\<rparr>,
                 PermanentObj \<lparr>id_number = 0, name = ''Bob'',
                   email = ''bob@acme-machining.com'',
                   image_path = ''./images/placeholder.png'', hourly_wage = PyFloat 20,
                   hired_date = ''2020-01-01''\<rparr>]\<rparr>) \<and>
   MainWindow_init (''Manager,Bob,bob@acme-machining.com,x,60000,2,extra,more'' @ [newline]) 0
     = (None,
        \<lparr>Employee_id_number = 1,
         data = [ManagerObj \<lparr>id_number = 0, name = ''Bob'',
                   email = ''bob@acme-machining.com'',
                   image_path = ''./images/placeholder.png'', yearly = PyFloat 60000,
                   department = FINANCE\<rparr>]\<rparr>)"
  unfolding MainWindow_init_def load_file_def file_Intern file_Bob_Intern
    file_Manager_eight_fields
  by (simp add: row_Intern row_Bob row_Manager_eight_fields construct_Bob
      construct_Manager_Bob del: construct.simps)

subsection \<open>Saving and loading back\<close>

lemma repr_60000: "float_repr 60000 = ''60000.0''"
  by (simp add: float_repr_def str_nat.simps Let_def)

lemma repr_20: "float_repr 20 = ''20.0''"
  by (simp add: float_repr_def str_nat.simps Let_def)

lemma saved_Ann:
  "save_file [ExecutiveObj \<lparr>id_number = 0, name = ''Ann'', email = ''ann@acme-machining.com'',
      image_path = ''./images/placeholder.png'', yearly = PyFloat 60000, role = CEO\<rparr>]
   = ''Executive,Ann, ann@acme-machining.com, ./images/placeholder.png, 60000.0,CEO''
     @ [newline]"
  by (simp add: save_file_def save_line_def Executive_repr_def Salaried_repr_def
      Employee_repr_def repr_60000)

lemma saved_Tom:
  "save_file [TemporaryObj \<lparr>id_number = 0, name = ''Tom'', email = ''tom@acme-machining.com'',
      image_path = ''./images/placeholder.png'', hourly_wage = PyFloat 20,
      last_day = ''2024-06-30''\<rparr>]
   = ''Temporary,Tom, tom@acme-machining.com, ./images/placeholder.png,20.0, 2024-06-30''
     @ [newline]"
  by (simp add: save_file_def save_line_def Temporary_repr_def Hourly_repr_def
      Employee_repr_def repr_20)

lemma saved_Bob:
  "save_file [PermanentObj \<lparr>id_number = 0, name = ''Bob'', email = ''bob@acme-machining.com'',
      image_path = ''./images/placeholder.png'', hourly_wage = PyFloat 20,
      hired_date = ''2020-01-01''\<rparr>]
   = ''Permanent,Bob, bob@acme-machining.com, ./images/placeholder.png,20.0,2020-01-01''
     @ [newline]"
  by (simp add: save_file_def save_line_def Permanent_repr_def Hourly_repr_def
      Employee_repr_def repr_20)

lemma file_saved_Ann:
  "csv_reader (universal_newlines
     (''Executive,Ann, ann@acme-machining.com, ./images/placeholder.png, 60000.0,CEO''
      @ [newline]))
   = [[''Executive'', ''Ann'', '' ann@acme-machining.com'', '' ./images/placeholder.png'',
       '' 60000.0'', ''CEO'']]"
  by code_simp

lemma file_saved_Tom:
  "csv_reader (universal_newlines
     (''Temporary,Tom, tom@acme-machining.com, ./images/placeholder.png,20.0, 2024-06-30''
      @ [newline]))
   = [[''Temporary'', ''Tom'', '' tom@acme-machining.com'', '' ./images/placeholder.png'',
       ''20.0'', '' 2024-06-30'']]"
  by code_simp

lemma file_saved_Bob:
  "csv_reader (universal_newlines
     (''Permanent,Bob, bob@acme-machining.com, ./images/placeholder.png,20.0,2020-01-01''
      @ [newline]))
   = [[''Permanent'', ''Bob'', '' bob@acme-machining.com'', '' ./images/placeholder.png'',
       ''20.0'', ''2020-01-01'']]"
  by code_simp

lemma float_saved_60000: "py_float '' 60000.0'' = Inr (PyFloat 60000)"
  by (simp add: parse_defs)

lemma int_CEO: "py_int ''CEO'' = Inl (ValueError ''invalid literal for int() with base 10'')"
  by (simp add: parse_defs)

lemma row_saved_Ann:
  "row_call [''Executive'', ''Ann'', '' ann@acme-machining.com'', '' ./images/placeholder.png'',
       '' 60000.0'', ''CEO'']
     = Inl (ValueError ''invalid literal for int() with base 10'')"
  by (simp add: row_call_def and_then_def subscript_def float_saved_60000 int_CEO)

lemma row_saved_Tom:
  "row_call [''Temporary'', ''Tom'', '' tom@acme-machining.com'', '' ./images/placeholder.png'',
       ''20.0'', '' 2024-06-30'']
     = Inr None"
  by (simp add: row_call_def and_then_def subscript_def)

lemma row_saved_Bob:
  "row_call [''Permanent'', ''Bob'', '' bob@acme-machining.com'', '' ./images/placeholder.png'',
       ''20.0'', ''2020-01-01'']
     = Inr (Some (PermanentCall ''Bob'' '' bob@acme-machining.com'' (PyFloat 20) ''2020-01-01''))"
  by (simp add: row_call_def and_then_def subscript_def float_20)

lemma construct_saved_Bob:
  "construct c (PermanentCall ''Bob'' '' bob@acme-machining.com'' (PyFloat 20) ''2020-01-01'')
     = (Inr (PermanentObj \<lparr>id_number = c, name = ''Bob'', email = '' bob@acme-machining.com'',
          image_path = ''./images/placeholder.png'', hourly_wage = PyFloat 20,
          hired_date = ''2020-01-01''\<rparr>), c + 1)"
  by (simp add: Permanent_init_eq name_check_def email_check_def sublist_code
      hourly_wage_check_def IMAGE_PLACEHOLDER_def)

text \<open>
  C1. Loading what \<^verbatim>\<open>save_file\<close> wrote does not give the records back. The line of
  an \<^verbatim>\<open>Executive\<close> ends with the name of the role, which \<^verbatim>\<open>int\<close> refuses with
  \<^verbatim>\<open>ValueError\<close> (a \<^verbatim>\<open>Manager\<close> likewise); the line of a \<^verbatim>\<open>Temporary\<close> begins with
  \<^verbatim>\<open>Temporary\<close> where \<^verbatim>\<open>load_file\<close> tests for \<^verbatim>\<open>Temp\<close>, and ends the load with
  \<^verbatim>\<open>UnboundLocalError\<close>; the line of a \<^verbatim>\<open>Permanent\<close> loads, with a space in front of
  the email. The three objects are those the constructors return at counter 0.
\<close>

theorem saved_records_do_not_load_back:
  "fst (Executive_init 0 ''Ann'' ''ann@acme-machining.com'' (PyFloat 60000) (IntObj 1))
     = Inr \<lparr>id_number = 0, name = ''Ann'', email = ''ann@acme-machining.com'',
         image_path = ''./images/placeholder.png'', yearly = PyFloat 60000, role = CEO\<rparr> \<and>
   load_file
     (save_file [ExecutiveObj \<lparr>id_number = 0, name = ''Ann'',
        email = ''ann@acme-machining.com'', image_path = ''./images/placeholder.png'',
        yearly = PyFloat 60000, role = CEO\<rparr>])
     \<lparr>Employee_id_number = 1, data = []\<rparr>
     = (Some (ValueError ''invalid literal for int() with base 10''),
        \<lparr>Employee_id_number = 1, data = []\<rparr>) \<and>
   fst (Temporary_init 0 ''Tom'' ''tom@acme-machining.com'' (PyFloat 20) ''2024-06-30'')
     = Inr \<lparr>id_number = 0, name = ''Tom'', email = ''tom@acme-machining.com'',
         image_path = ''./images/placeholder.png'', hourly_wage = PyFloat 20,
         last_day = ''2024-06-30''\<rparr> \<and>
   load_file
     (save_file [TemporaryObj \<lparr>id_number = 0, name = ''Tom'',
        email = ''tom@acme-machining.com'', image_path = ''./images/placeholder.png'',
        hourly_wage = PyFloat 20, last_day = ''2024-06-30''\<rparr>])
     \<lparr>Employee_id_number = 1, data = []\<rparr>
     = (Some UnboundLocalError, \<lparr>Employee_id_number = 1, data = []\<rparr>) \<and>
   fst (Permanent_init 0 ''Bob'' ''bob@acme-machining.com'' (PyFloat 20) ''2020-01-01'')
     = Inr \<lparr>id_number = 0, name = ''Bob'', email = ''bob@acme-machining.com'',
         image_path = ''./images/placeholder.png'', hourly_wage = PyFloat 20,
         hired_date = ''2020-01-01''\<rparr> \<and>
   load_file
     (save_file [PermanentObj \<lparr>id_number = 0, name = ''Bob'',
        email = ''bob@acme-machining.com'', image_path = ''./images/placeholder.png'',
        hourly_wage = PyFloat 20, hired_date = ''2020-01-01''\<rparr>])
     \<lparr>Employee_id_number = 1, data = []\<rparr>
     = (None,
        \<lparr>Employee_id_number = 2,
         data = [PermanentObj \<lparr>id_number = 1, name = ''Bob'',
           email = '' bob@acme-machining.com'', image_path = ''./images/placeholder.png'',
           hourly_wage = PyFloat 20, hired_date = ''2020-01-01''\<rparr>]\<rparr>)"
proof -
  have ann: "fst (Executive_init 0 ''Ann'' ''ann@acme-machining.com'' (PyFloat 60000) (IntObj 1))
     = Inr \<lparr>id_number = 0, name = ''Ann'', email = ''ann@acme-machining.com'',
         image_path = ''./images/placeholder.png'', yearly = PyFloat 60000, role = CEO\<rparr>"
    by (simp add: Executive_init_eq name_check_def email_check_def sublist_code
        yearly_check_def IMAGE_PLACEHOLDER_def Role_members_def)
  have tom: "fst (Temporary_init 0 ''Tom'' ''tom@acme-machining.com'' (PyFloat 20) ''2024-06-30'')
     = Inr \<lparr>id_number = 0, name = ''Tom'', email = ''tom@acme-machining.com'',
         image_path = ''./images/placeholder.png'', hourly_wage = PyFloat 20,
         last_day = ''2024-06-30''\<rparr>"
    by (simp add: Temporary_init_eq name_check_def email_check_def sublist_code
        hourly_wage_check_def IMAGE_PLACEHOLDER_def)
  have bob: "fst (Permanent_init 0 ''Bob'' ''bob@acme-machining.com'' (PyFloat 20) ''2020-01-01'')
     = Inr \<lparr>id_number = 0, name = ''Bob'', email = ''bob@acme-machining.com'',
         image_path = ''./images/placeholder.png'', hourly_wage = PyFloat 20,
         hired_date = ''2020-01-01''\<rparr>"
    by (simp add: Permanent_init_eq name_check_def email_check_def sublist_code
        hourly_wage_check_def IMAGE_PLACEHOLDER_def)
  have l1: "load_file
     (save_file [ExecutiveObj \<lparr>id_number = 0, name = ''Ann'',
        email = ''ann@acme-machining.com'', image_path = ''./images/placeholder.png'',
        yearly = PyFloat 60000, role = CEO\<rparr>])
     \<lparr>Employee_id_number = 1, data = []\<rparr>
     = (Some (ValueError ''invalid literal for int() with base 10''),
        \<lparr>Employee_id_number = 1, data = []\<rparr>)"
    unfolding saved_Ann load_file_def file_saved_Ann
    by (simp add: row_saved_Ann)
  have l2: "load_file
     (save_file [TemporaryObj \<lparr>id_number = 0, name = ''Tom'',
        email = ''tom@acme-machining.com'', image_path = ''./images/placeholder.png'',
        hourly_wage = PyFloat 20, last_day = ''2024-06-30''\<rparr>])
     \<lparr>Employee_id_number = 1, data = []\<rparr>
     = (Some UnboundLocalError, \<lparr>Employee_id_number = 1, data = []\<rparr>)"
    unfolding saved_Tom load_file_def file_saved_Tom
    by (simp add: row_saved_Tom)
  have l3: "load_file
     (save_file [PermanentObj \<lparr>id_number = 0, name = ''Bob'',
        email = ''bob@acme-machining.com'', image_path = ''./images/placeholder.png'',
        hourly_wage = PyFloat 20, hired_date = ''2020-01-01''\<rparr>])
     \<lparr>Employee_id_number = 1, data = []\<rparr>
     = (None,
        \<lparr>Employee_id_number = 2,
         data = [PermanentObj \<lparr>id_number = 1, name = ''Bob'',
           email = '' bob@acme-machining.com'', image_path = ''./images/placeholder.png'',
           hourly_wage = PyFloat 20, hired_date = ''2020-01-01''\<rparr>]\<rparr>)"
    unfolding saved_Bob load_file_def file_saved_Bob
    by (simp add: row_saved_Bob construct_saved_Bob del: construct.simps)
  from ann tom bob l1 l2 l3 show ?thesis by blast
qed

subsection \<open>The text of a number has no special character\<close>


lemma plain_Cons:
  "plain (c # s) = (c \<noteq> CHR '','' \<and> c \<noteq> CHR 0x22 \<and> c \<noteq> newline \<and> c \<noteq> CHR 0x0D \<and> plain s)"
  by (auto simp add: plain_def)











subsection \<open>Reading a line of plain fields\<close>






lemma plain_no_return: "plain s \<Longrightarrow> CHR 0x0D \<notin> set s"
  by (auto simp add: plain_def)

lemma csv_six_fields_join:
  assumes "plain a" "plain b" "plain c" "plain d" "plain f" "plain g"
  shows "CHR 0x0D \<notin> set (a @ CHR '','' # b @ CHR '','' # c @ CHR '','' # d @ CHR '','' # f
           @ CHR '','' # g @ [newline])"
  using assms by (simp add: plain_no_return newline_def)

subsection \<open>The line that \<^verbatim>\<open>save_file\<close> writes\<close>

lemma plain_space: "plain ('' '' @ s) = plain s"
  by (simp add: plain_Cons newline_def)












end
